theory Spec2Isabelle
  imports Complex_Main "HOL-Library.AList"
begin

section \<open>Values of the page script\<close>

text \<open>
  The script \<^verbatim>\<open>script.js\<close> drives one page: a toggle button, a video element, a canvas
  laid over it, three text fields and a grid with one entry per registered emotion.
  Strings are byte lists (the bytes of the source file, which is UTF-8); numbers coming
  from the detector are exact rationals, and \<^verbatim>\<open>value * 100\<close> is the exact product. The
  script computes that product in IEEE doubles, so the two agree where the exact product
  is itself a double (\<open>exact_double\<close> below); statements about the text of a percentage
  are made for such scores only.
\<close>

datatype js_error = TypeError | Rejected string

datatype outcome = Normal | Throws js_error

datatype console_entry = ConsoleLog string | ConsoleError string js_error

subsection \<open>The emotion registry\<close>

record emotion_info =
  emoji :: string
  color :: string

text \<open>
  The object literal \<^verbatim>\<open>emotionMap\<close>, in the order of its keys. The emoji are the byte
  sequences that stand between the quotes in the source file.
\<close>

definition emotionMap :: "(string \<times> emotion_info) list" where
  "emotionMap =
    [(''neutral'', \<lparr>emoji = [CHR 0xC3, CHR 0xB0, CHR 0xC5, CHR 0xB8, CHR 0xCB, CHR 0x9C],
        color = ''#a0aec0''\<rparr>),
     (''happy'', \<lparr>emoji = [CHR 0xC3, CHR 0xB0, CHR 0xC5, CHR 0xB8, CHR 0xCB, CHR 0x9C, CHR 0xC5, CHR 0xA0],
        color = ''#90ee90''\<rparr>),
     (''sad'', \<lparr>emoji = [CHR 0xC3, CHR 0xB0, CHR 0xC5, CHR 0xB8, CHR 0xCB, CHR 0x9C, CHR 0xC2, CHR 0xA2],
        color = ''#87ceeb''\<rparr>),
     (''angry'', \<lparr>emoji = [CHR 0xC3, CHR 0xB0, CHR 0xC5, CHR 0xB8, CHR 0xCB, CHR 0x9C, CHR 0xC2, CHR 0xA0],
        color = ''#ff6b6b''\<rparr>),
     (''fearful'', \<lparr>emoji = [CHR 0xC3, CHR 0xB0, CHR 0xC5, CHR 0xB8, CHR 0xCB, CHR 0x9C, CHR 0xC2, CHR 0xA8],
        color = ''#daa520''\<rparr>),
     (''disgusted'', \<lparr>emoji = [CHR 0xC3, CHR 0xB0, CHR 0xC5, CHR 0xB8, CHR 0xC2, CHR 0xA4, CHR 0xC2, CHR 0xA2],
        color = ''#98d8c8''\<rparr>),
     (''surprised'', \<lparr>emoji = [CHR 0xC3, CHR 0xB0, CHR 0xC5, CHR 0xB8, CHR 0xCB, CHR 0x9C, CHR 0xC2, CHR 0xB2],
        color = ''#ffd700''\<rparr>)]"

text \<open>\<^verbatim>\<open>Object.keys(emotionMap)\<close>: the seven labels, in insertion order.\<close>

definition emotion_labels :: "string list" where
  "emotion_labels = map fst emotionMap"

text \<open>
  \<^verbatim>\<open>emotionMap[k]\<close> reads a property through the prototype chain: an own key gives the
  registered entry, a property name of \<^verbatim>\<open>Object.prototype\<close> gives an inherited value
  (a function or object whose \<^verbatim>\<open>color\<close> and \<^verbatim>\<open>emoji\<close> are undefined), any other key
  gives \<^verbatim>\<open>undefined\<close>, on which \<^verbatim>\<open>.color\<close> throws a TypeError.
\<close>

datatype property = Own emotion_info | Inherited | Missing

definition object_prototype_keys :: "string list" where
  "object_prototype_keys =
    [''constructor'', ''hasOwnProperty'', ''isPrototypeOf'', ''propertyIsEnumerable'',
     ''toLocaleString'', ''toString'', ''valueOf'', ''__proto__'', ''__defineGetter__'',
     ''__defineSetter__'', ''__lookupGetter__'', ''__lookupSetter__'']"

definition emotionMap_get :: "string \<Rightarrow> property" where
  "emotionMap_get k =
    (case map_of emotionMap k of
       Some info \<Rightarrow> Own info
     | None \<Rightarrow> if k \<in> set object_prototype_keys then Inherited else Missing)"

subsection \<open>Strings and number formatting\<close>

text \<open>
  \<^verbatim>\<open>toUpperCase\<close> on the ASCII letters; other bytes are kept. On a string of ASCII
  characters (\<open>is_ascii\<close>) this is what \<^verbatim>\<open>String.prototype.toUpperCase\<close> gives; letters
  outside ASCII, which the script would map as well, are not modelled.
\<close>

definition upper_char :: "char \<Rightarrow> char" where
  "upper_char c =
    (case map_of (zip ''abcdefghijklmnopqrstuvwxyz'' ''ABCDEFGHIJKLMNOPQRSTUVWXYZ'') c of
       Some u \<Rightarrow> u
     | None \<Rightarrow> c)"

definition toUpperCase :: "string \<Rightarrow> string" where
  "toUpperCase str = map upper_char str"

definition is_ascii :: "string \<Rightarrow> bool" where
  "is_ascii str = list_all (\<lambda>c. (of_char c :: nat) < 128) str"

definition digit_char :: "nat \<Rightarrow> char" where
  "digit_char d = ''0123456789'' ! (d mod 10)"

text \<open>The decimal digits of a natural number, as a template literal prints a length.\<close>

fun decimal :: "nat \<Rightarrow> string" where
  "decimal n = (if n < 10 then [digit_char n] else decimal (n div 10) @ [digit_char n])"

declare decimal.simps [simp del]

text \<open>
  \<^verbatim>\<open>x.toFixed(1)\<close> for a double \<open>x\<close> with \<open>\<bar>x\<bar> < 10\<^sup>2\<^sup>1\<close>: the sign, then the integer
  \<open>n\<close> nearest to \<open>10 * \<bar>x\<bar>\<close> (the larger one on a tie), padded to two digits, with the
  point before the last digit. From \<open>10\<^sup>2\<^sup>1\<close> on the script would print the exponent
  form, which is not modelled.
\<close>

definition toFixed1 :: "rat \<Rightarrow> string" where
  "toFixed1 x =
    (let n = nat \<lfloor>\<bar>x\<bar> * 10 + 1 / 2\<rfloor>;
         m = decimal n;
         m' = (if length m \<le> 1 then ''0'' @ m else m)
     in (if x < 0 then ''-'' else '''') @ butlast m' @ ''.'' @ [last m'])"

text \<open>
  The finite doubles of magnitude below \<open>2\<^sup>5\<^sup>3\<close>: the numbers \<open>m / 2\<^sup>k\<close> with an integer
  \<open>\<bar>m\<bar> < 2\<^sup>5\<^sup>3\<close> and \<open>k \<le> 1074\<close>. When the exact product of two doubles is such a
  number, the IEEE product is that number, without rounding; and it is below \<open>10\<^sup>2\<^sup>1\<close>.
  The single-precision numbers of magnitude below \<open>2\<^sup>2\<^sup>4\<close>, among them every value an
  entry of a \<^verbatim>\<open>Float32Array\<close> between -1 and 1 can have, are \<open>m / 2\<^sup>k\<close> with
  \<open>\<bar>m\<bar> < 2\<^sup>2\<^sup>4\<close> and \<open>k \<le> 149\<close>.
\<close>

definition whole_below :: "nat \<Rightarrow> rat \<Rightarrow> bool" where
  "whole_below bits y = (of_int \<lfloor>y\<rfloor> = y \<and> \<bar>y\<bar> < 2 ^ bits)"

definition exact_double :: "rat \<Rightarrow> bool" where
  "exact_double x = list_ex (\<lambda>k. whole_below 53 (x * 2 ^ k)) [0..<1075]"

definition single_precision :: "rat \<Rightarrow> bool" where
  "single_precision x = list_ex (\<lambda>k. whole_below 24 (x * 2 ^ k)) [0..<150]"

subsection \<open>Detection results\<close>

record box =
  box_x :: rat
  box_y :: rat
  box_width :: rat
  box_height :: rat

text \<open>
  One detected face: \<^verbatim>\<open>Object.entries(detection.expressions)\<close> as the list of its
  entries in iteration order, and \<^verbatim>\<open>detection.detection.box\<close>.
\<close>

record detection =
  expressions :: "(string \<times> rat) list"
  detection_box :: box

subsection \<open>The page and the session\<close>

text \<open>One child of the emotions list, as \<^verbatim>\<open>initEmotionsGrid\<close> builds it.\<close>

record emotion_item =
  item_name :: string
  fill_background :: string
  fill_width :: string
  value_text :: string
  active :: bool

datatype draw_op =
  StrokeRect string nat rat rat rat rat
  | FillText string string string rat rat

text \<open>
  The canvas with the state of its 2d context. \<open>drawn\<close> lists what has been drawn since
  the bitmap was last cleared: a rectangle with its stroke style and line width, a text
  with its fill style and font.
\<close>

record canvas2d =
  canvas_width :: nat
  canvas_height :: nat
  strokeStyle :: string
  lineWidth :: nat
  fillStyle :: string
  font :: string
  drawn :: "draw_op list"

datatype context2d = Context2D

text \<open>
  The session: the three globals of the script, the elements it reads and writes, and
  what the browser holds for it (active interval timers, live media tracks, pending
  asynchronous calls, alerts shown, the console, errors no handler caught).
\<close>

record session =
  isVideoRunning :: bool
  detectingInterval :: "nat option"
  ctx :: "context2d option"
  emotionName_text :: string
  emotionConfidence_text :: string
  faceCount_text :: string
  emotionsList :: "(string \<times> emotion_item) list"
  toggle_text :: string
  toggle_disabled :: bool
  toggle_active :: bool
  loadingIndicator_text :: string
  loadingIndicator_display :: string
  srcObject :: "nat option"
  onloadedmetadata :: bool
  canvas :: canvas2d
  timers :: "nat list"
  next_timer :: nat
  live_tracks :: "nat list"
  next_stream :: nat
  alerts :: "string list"
  console :: "console_entry list"
  uncaught :: "js_error list"
  loaded :: bool
  models_pending :: bool
  media_pending :: nat
  detect_pending :: nat


section \<open>The presentation layer\<close>

subsection \<open>Canvas operations\<close>

text \<open>\<^verbatim>\<open>ctx.clearRect(0, 0, canvas.width, canvas.height)\<close>: the whole bitmap is cleared.\<close>

definition clearRect :: "canvas2d \<Rightarrow> canvas2d" where
  "clearRect c = c\<lparr>drawn := []\<rparr>"

definition strokeRect :: "rat \<Rightarrow> rat \<Rightarrow> rat \<Rightarrow> rat \<Rightarrow> canvas2d \<Rightarrow> canvas2d" where
  "strokeRect x y w h c = c\<lparr>drawn := drawn c @ [StrokeRect (strokeStyle c) (lineWidth c) x y w h]\<rparr>"

definition fillText :: "string \<Rightarrow> rat \<Rightarrow> rat \<Rightarrow> canvas2d \<Rightarrow> canvas2d" where
  "fillText t x y c = c\<lparr>drawn := drawn c @ [FillText t (fillStyle c) (font c) x y]\<rparr>"

text \<open>
  Assigning \<^verbatim>\<open>canvas.width\<close> or \<^verbatim>\<open>canvas.height\<close> clears the bitmap and resets the
  context to its default state.
\<close>

definition resize :: "nat \<Rightarrow> nat \<Rightarrow> canvas2d \<Rightarrow> canvas2d" where
  "resize w h c =
    \<lparr>canvas_width = w, canvas_height = h, strokeStyle = ''#000000'', lineWidth = 1,
     fillStyle = ''#000000'', font = ''10px sans-serif'', drawn = []\<rparr>"

text \<open>
  Assigning a style: a registered color is a valid CSS color and is taken; the value
  \<^verbatim>\<open>undefined\<close> is not, and the context keeps the style it had.
\<close>

definition set_strokeStyle :: "string option \<Rightarrow> canvas2d \<Rightarrow> canvas2d" where
  "set_strokeStyle v c = (case v of Some col \<Rightarrow> c\<lparr>strokeStyle := col\<rparr> | None \<Rightarrow> c)"

definition set_fillStyle :: "string option \<Rightarrow> canvas2d \<Rightarrow> canvas2d" where
  "set_fillStyle v c = (case v of Some col \<Rightarrow> c\<lparr>fillStyle := col\<rparr> | None \<Rightarrow> c)"

subsection \<open>The emotions grid\<close>

text \<open>
  \<^verbatim>\<open>initEmotionsGrid\<close> empties the list and appends one item per key of the registry,
  with id \<^verbatim>\<open>emotion-<label>\<close>, the class \<^verbatim>\<open>emotion-item\<close> alone, a bar fill that has a
  background and no inline width, and the value text \<^verbatim>\<open>0%\<close>.
\<close>

definition zero_item :: "string \<Rightarrow> emotion_info \<Rightarrow> emotion_item" where
  "zero_item emotion info =
    \<lparr>item_name = emoji info @ '' '' @ emotion, fill_background = color info,
     fill_width = [], value_text = ''0%'', active = False\<rparr>"

definition initEmotionsGrid :: "session \<Rightarrow> session" where
  "initEmotionsGrid s =
    s\<lparr>emotionsList :=
        map (\<lambda>(emotion, info). (''emotion-'' @ emotion, zero_item emotion info)) emotionMap\<rparr>"

text \<open>
  \<^verbatim>\<open>document.getElementById(`emotion-${emotion}`)\<close>. Two elements of the page that the
  script itself binds have an id of this shape, \<^verbatim>\<open>emotion-name\<close> and
  \<^verbatim>\<open>emotion-confidence\<close>; the others are the items of the grid. No other element of
  the page is assumed to carry such an id.
\<close>

datatype element = EmotionName | EmotionConfidence | EmotionItem string

definition getElementById_emotion :: "session \<Rightarrow> string \<Rightarrow> element option" where
  "getElementById_emotion s emotion =
    (let i = ''emotion-'' @ emotion in
     if i = ''emotion-name'' then Some EmotionName
     else if i = ''emotion-confidence'' then Some EmotionConfidence
     else if map_of (emotionsList s) i \<noteq> None then Some (EmotionItem i)
     else None)"

text \<open>
  One round of the second \<^verbatim>\<open>forEach\<close>. On an item of the grid the value text and the
  width assigned to the bar are set and the class \<^verbatim>\<open>active\<close> is added or removed. The
  name and confidence elements hold text only, so \<^verbatim>\<open>querySelector\<close> gives null on them
  and the assignment to \<^verbatim>\<open>.textContent\<close> throws. \<open>fill_width\<close> is the string the script
  assigns to \<^verbatim>\<open>style.width\<close>.
\<close>

definition update_emotion :: "string \<Rightarrow> string \<times> rat \<Rightarrow> session \<Rightarrow> outcome \<times> session" where
  "update_emotion maxEmotion entry s =
    (case entry of (emotion, confidence) \<Rightarrow>
      (case getElementById_emotion s emotion of
         None \<Rightarrow> (Normal, s)
       | Some (EmotionItem i) \<Rightarrow>
           (let percentage = toFixed1 (confidence * 100) in
            (Normal, s\<lparr>emotionsList :=
               AList.map_entry i
                 (\<lambda>it. it\<lparr>value_text := percentage @ ''%'', fill_width := percentage @ ''%'',
                            active := (emotion = maxEmotion)\<rparr>)
                 (emotionsList s)\<rparr>))
       | Some _ \<Rightarrow> (Throws TypeError, s)))"

fun update_emotions :: "string \<Rightarrow> (string \<times> rat) list \<Rightarrow> session \<Rightarrow> outcome \<times> session" where
  "update_emotions maxEmotion [] s = (Normal, s)"
| "update_emotions maxEmotion (entry # entries) s =
    (case update_emotion maxEmotion entry s of
       (Throws e, s') \<Rightarrow> (Throws e, s')
     | (Normal, s') \<Rightarrow> update_emotions maxEmotion entries s')"

subsection \<open>The dominant emotion\<close>

definition dominant_step :: "string \<times> rat \<Rightarrow> string \<times> rat \<Rightarrow> string \<times> rat" where
  "dominant_step best entry =
    (case best of (maxEmotion, maxValue) \<Rightarrow>
      (case entry of (emotion, v) \<Rightarrow>
        if v > maxValue then (emotion, v) else (maxEmotion, maxValue)))"

definition dominant :: "(string \<times> rat) list \<Rightarrow> string \<times> rat" where
  "dominant entries = foldl dominant_step (''neutral'', 0) entries"

subsection \<open>Drawing the face box and its label\<close>

definition color_of :: "property \<Rightarrow> string option" where
  "color_of p = (case p of Own info \<Rightarrow> Some (color info) | _ \<Rightarrow> None)"

text \<open>An undefined emoji prints as \<^verbatim>\<open>undefined\<close> in the template literal.\<close>

definition emoji_text :: "property \<Rightarrow> string" where
  "emoji_text p = (case p of Own info \<Rightarrow> emoji info | _ \<Rightarrow> ''undefined'')"

definition draw_face :: "string \<Rightarrow> rat \<Rightarrow> box \<Rightarrow> session \<Rightarrow> outcome \<times> session" where
  "draw_face maxEmotion maxValue b s =
    (case emotionMap_get maxEmotion of
       Missing \<Rightarrow> (Throws TypeError, s)
     | p \<Rightarrow>
        (let c1 = set_strokeStyle (color_of p) (canvas s);
             c2 = c1\<lparr>lineWidth := 3\<rparr>;
             c3 = strokeRect (box_x b) (box_y b) (box_width b) (box_height b) c2;
             label = emoji_text p @ '' '' @ toUpperCase maxEmotion @ '' (''
                       @ toFixed1 (maxValue * 100) @ ''%)'';
             c4 = set_fillStyle (color_of p) c3;
             c5 = c4\<lparr>font := ''bold 18px Arial''\<rparr>;
             c6 = fillText label (box_x b) (box_y b - 10) c5
         in (Normal, s\<lparr>canvas := c6\<rparr>)))"

section \<open>The detection tick\<close>

text \<open>
  \<^verbatim>\<open>detectEmotions\<close> runs in two parts. The first, up to the \<^verbatim>\<open>await\<close>, returns at
  once when the camera is not running and otherwise issues a detection call. The second
  runs when that call settles: on a rejection the \<^verbatim>\<open>catch\<close> logs it; on a result the
  rest of the \<^verbatim>\<open>try\<close> block runs, and an error thrown there is logged by the same
  \<^verbatim>\<open>catch\<close> with the state as the throwing statement found it.
\<close>

definition detectEmotions_start :: "session \<Rightarrow> session" where
  "detectEmotions_start s =
    (if \<not> isVideoRunning s then s else s\<lparr>detect_pending := detect_pending s + 1\<rparr>)"

definition show_face :: "detection \<Rightarrow> session \<Rightarrow> outcome \<times> session" where
  "show_face d s =
    (case dominant (expressions d) of (maxEmotion, maxValue) \<Rightarrow>
      (let s1 = s\<lparr>emotionName_text := toUpperCase maxEmotion,
                  emotionConfidence_text := toFixed1 (maxValue * 100) @ ''%''\<rparr>
       in case update_emotions maxEmotion (expressions d) s1 of
            (Throws e, s2) \<Rightarrow> (Throws e, s2)
          | (Normal, s2) \<Rightarrow> draw_face maxEmotion maxValue (detection_box d) s2))"

definition detectEmotions_body :: "detection list \<Rightarrow> session \<Rightarrow> outcome \<times> session" where
  "detectEmotions_body detections s =
    (case ctx s of
       None \<Rightarrow> (Throws TypeError, s)
     | Some _ \<Rightarrow>
        (let s1 = s\<lparr>canvas := clearRect (canvas s)\<rparr>;
             s2 = s1\<lparr>faceCount_text := ''Faces Detected: '' @ decimal (length detections)\<rparr>
         in case detections of
              d # _ \<Rightarrow> show_face d s2
            | [] \<Rightarrow> (Normal, initEmotionsGrid
                        (s2\<lparr>emotionName_text := ''--'', emotionConfidence_text := ''0%''\<rparr>))))"

definition try_catch ::
  "(session \<Rightarrow> outcome \<times> session) \<Rightarrow> (js_error \<Rightarrow> session \<Rightarrow> outcome \<times> session) \<Rightarrow>
   session \<Rightarrow> outcome \<times> session" where
  "try_catch body handler s =
    (case body s of (Normal, s') \<Rightarrow> (Normal, s') | (Throws e, s') \<Rightarrow> handler e s')"

definition console_error :: "string \<Rightarrow> js_error \<Rightarrow> session \<Rightarrow> outcome \<times> session" where
  "console_error msg e s = (Normal, s\<lparr>console := console s @ [ConsoleError msg e]\<rparr>)"

definition detectEmotions_resume :: "js_error + detection list \<Rightarrow> session \<Rightarrow> outcome \<times> session" where
  "detectEmotions_resume r s =
    try_catch
      (\<lambda>s. case r of Inl e \<Rightarrow> (Throws e, s) | Inr detections \<Rightarrow> detectEmotions_body detections s)
      (console_error ''Detection error:'')
      s"


section \<open>The webcam controller and the timer\<close>

text \<open>
  The browser's interval timers: \<^verbatim>\<open>setInterval\<close> hands out the next handle and the
  timer is active until \<^verbatim>\<open>clearInterval\<close> is called on it. The script tests a handle
  by its truthiness, so a handle 0 would count as none.
\<close>

definition clearInterval :: "nat \<Rightarrow> session \<Rightarrow> session" where
  "clearInterval i s = s\<lparr>timers := removeAll i (timers s)\<rparr>"

definition setInterval :: "session \<Rightarrow> nat \<times> session" where
  "setInterval s =
    (next_timer s, s\<lparr>timers := timers s @ [next_timer s], next_timer := Suc (next_timer s)\<rparr>)"

definition clear_if_set :: "session \<Rightarrow> session" where
  "clear_if_set s =
    (case detectingInterval s of
       Some i \<Rightarrow> if i \<noteq> 0 then clearInterval i s else s
     | None \<Rightarrow> s)"

definition startDetection :: "session \<Rightarrow> session" where
  "startDetection s =
    (case setInterval (clear_if_set s) of (i, s') \<Rightarrow> s'\<lparr>detectingInterval := Some i\<rparr>)"

text \<open>
  \<^verbatim>\<open>startWebcam\<close>: the request for the camera, and what runs when it is granted (a new
  stream with a live track) or refused.
\<close>

definition startWebcam_request :: "session \<Rightarrow> session" where
  "startWebcam_request s = s\<lparr>media_pending := media_pending s + 1\<rparr>"

definition startWebcam_granted :: "session \<Rightarrow> session" where
  "startWebcam_granted s =
    s\<lparr>srcObject := Some (next_stream s),
      live_tracks := live_tracks s @ [next_stream s],
      next_stream := Suc (next_stream s),
      isVideoRunning := True,
      ctx := Some Context2D,
      onloadedmetadata := True\<rparr>"

definition startWebcam_denied :: "js_error \<Rightarrow> session \<Rightarrow> session" where
  "startWebcam_denied e s =
    s\<lparr>console := console s @ [ConsoleError ''Error accessing webcam:'' e],
      alerts := alerts s @ [''Could not access webcam. Please check permissions.''],
      isVideoRunning := False\<rparr>"

definition on_loadedmetadata :: "nat \<Rightarrow> nat \<Rightarrow> session \<Rightarrow> session" where
  "on_loadedmetadata videoWidth videoHeight s =
    startDetection (s\<lparr>canvas := resize videoWidth videoHeight (canvas s)\<rparr>)"

definition stop_tracks :: "session \<Rightarrow> session" where
  "stop_tracks s =
    (case srcObject s of
       Some stream \<Rightarrow> s\<lparr>live_tracks := removeAll stream (live_tracks s)\<rparr>
     | None \<Rightarrow> s)"

text \<open>\<^verbatim>\<open>stopWebcam\<close>; with \<^verbatim>\<open>ctx\<close> still null the call of \<^verbatim>\<open>clearRect\<close> throws.\<close>

definition stopWebcam :: "session \<Rightarrow> outcome \<times> session" where
  "stopWebcam s =
    (let s1 = stop_tracks s;
         s2 = s1\<lparr>isVideoRunning := False\<rparr>;
         s3 = clear_if_set s2
     in case ctx s3 of
          None \<Rightarrow> (Throws TypeError, s3)
        | Some _ \<Rightarrow>
            (Normal, initEmotionsGrid
               (s3\<lparr>canvas := clearRect (canvas s3),
                   emotionName_text := ''--'',
                   emotionConfidence_text := ''0%'',
                   faceCount_text := ''Faces Detected: 0''\<rparr>)))"

section \<open>Event handlers\<close>

definition toggle_click :: "session \<Rightarrow> outcome \<times> session" where
  "toggle_click s =
    (if isVideoRunning s then
       (case stopWebcam s of
          (Throws e, s') \<Rightarrow> (Throws e, s')
        | (Normal, s') \<Rightarrow> (Normal, s'\<lparr>toggle_text := ''Start Camera'', toggle_active := False\<rparr>))
     else
       (Normal, (startWebcam_request s)\<lparr>toggle_text := ''Stop Camera'', toggle_active := True\<rparr>))"

text \<open>
  \<^verbatim>\<open>loadModels\<close>: up to the \<^verbatim>\<open>await\<close>, and after it. The function catches a failed
  load itself, so its caller resumes in either case.
\<close>

definition loadModels_start :: "session \<Rightarrow> session" where
  "loadModels_start s =
    s\<lparr>console := console s @ [ConsoleLog ''Loading models...''], models_pending := True\<rparr>"

definition loadModels_resume :: "js_error + unit \<Rightarrow> session \<Rightarrow> session" where
  "loadModels_resume r s =
    (case r of
       Inr _ \<Rightarrow>
         s\<lparr>console := console s @ [ConsoleLog ''Models loaded successfully!''],
           loadingIndicator_display := ''none'',
           toggle_disabled := False\<rparr>
     | Inl e \<Rightarrow>
         s\<lparr>console := console s @ [ConsoleError ''Error loading models:'' e],
           loadingIndicator_text := ''Error loading models''\<rparr>)"

definition load_start :: "session \<Rightarrow> session" where
  "load_start s =
    loadModels_start ((initEmotionsGrid s)\<lparr>toggle_disabled := True, toggle_text := ''Loading Models...''\<rparr>)"

definition load_resume :: "js_error + unit \<Rightarrow> session \<Rightarrow> session" where
  "load_resume r s =
    (loadModels_resume r s)\<lparr>toggle_text := ''Start Camera'', toggle_disabled := False\<rparr>"

definition beforeunload :: "session \<Rightarrow> outcome \<times> session" where
  "beforeunload s = (if isVideoRunning s then stopWebcam s else (Normal, s))"

section \<open>The session as a transition system\<close>

text \<open>
  What can happen to a session: the page's load event, the model load settling, a click
  on the toggle, a camera request settling, the video's metadata arriving, a timer
  firing, a detection call settling, the page unloading.
\<close>

datatype event =
  PageLoad
  | ModelsLoaded
  | ModelsFailed js_error
  | Click
  | MediaGranted
  | MediaDenied js_error
  | LoadedMetadata nat nat
  | TimerFires nat
  | DetectDone "js_error + detection list"
  | BeforeUnload

fun enabled :: "session \<Rightarrow> event \<Rightarrow> bool" where
  "enabled s PageLoad = (\<not> loaded s)"
| "enabled s ModelsLoaded = models_pending s"
| "enabled s (ModelsFailed e) = models_pending s"
| "enabled s Click = (\<not> toggle_disabled s)"
| "enabled s MediaGranted = (0 < media_pending s)"
| "enabled s (MediaDenied e) = (0 < media_pending s)"
| "enabled s (LoadedMetadata w h) = onloadedmetadata s"
| "enabled s (TimerFires i) = (i \<in> set (timers s))"
| "enabled s (DetectDone r) = (0 < detect_pending s)"
| "enabled s BeforeUnload = True"

text \<open>An error that leaves a handler is reported by the browser and the handler ends.\<close>

definition finish :: "outcome \<times> session \<Rightarrow> session" where
  "finish r = (case r of (Normal, s) \<Rightarrow> s | (Throws e, s) \<Rightarrow> s\<lparr>uncaught := uncaught s @ [e]\<rparr>)"

fun fire :: "event \<Rightarrow> session \<Rightarrow> session" where
  "fire PageLoad s = load_start (s\<lparr>loaded := True\<rparr>)"
| "fire ModelsLoaded s = load_resume (Inr ()) (s\<lparr>models_pending := False\<rparr>)"
| "fire (ModelsFailed e) s = load_resume (Inl e) (s\<lparr>models_pending := False\<rparr>)"
| "fire Click s = finish (toggle_click s)"
| "fire MediaGranted s = startWebcam_granted (s\<lparr>media_pending := media_pending s - 1\<rparr>)"
| "fire (MediaDenied e) s = startWebcam_denied e (s\<lparr>media_pending := media_pending s - 1\<rparr>)"
| "fire (LoadedMetadata w h) s = on_loadedmetadata w h s"
| "fire (TimerFires i) s = detectEmotions_start s"
| "fire (DetectDone r) s = finish (detectEmotions_resume r (s\<lparr>detect_pending := detect_pending s - 1\<rparr>))"
| "fire BeforeUnload s = finish (beforeunload s)"

fun run :: "event list \<Rightarrow> session \<Rightarrow> session option" where
  "run [] s = Some s"
| "run (e # es) s = (if enabled s e then run es (fire e s) else None)"

text \<open>
  A page as the script finds it: its globals at their initial values, nothing pending,
  no timer, timer handles starting above 0. The texts and the button state come from
  the markup and are left open.
\<close>

definition initial :: "session \<Rightarrow> bool" where
  "initial s =
    (\<not> isVideoRunning s \<and> detectingInterval s = None \<and> ctx s = None \<and> srcObject s = None
     \<and> \<not> onloadedmetadata s \<and> timers s = [] \<and> 0 < next_timer s \<and> live_tracks s = []
     \<and> \<not> loaded s \<and> \<not> models_pending s \<and> media_pending s = 0 \<and> detect_pending s = 0)"

inductive reachable :: "session \<Rightarrow> bool" where
  start: "initial s \<Longrightarrow> reachable s"
| step: "reachable s \<Longrightarrow> enabled s e \<Longrightarrow> reachable (fire e s)"

text \<open>
  A concrete page for the examples: empty texts, an enabled button, a canvas of the
  default size with a context in its default state.
\<close>

definition fresh_page :: session where
  "fresh_page =
    \<lparr>isVideoRunning = False, detectingInterval = None, ctx = None,
     emotionName_text = [], emotionConfidence_text = [], faceCount_text = [],
     emotionsList = [], toggle_text = [], toggle_disabled = False, toggle_active = False,
     loadingIndicator_text = [], loadingIndicator_display = [],
     srcObject = None, onloadedmetadata = False,
     canvas = \<lparr>canvas_width = 300, canvas_height = 150, strokeStyle = ''#000000'', lineWidth = 1,
               fillStyle = ''#000000'', font = ''10px sans-serif'', drawn = []\<rparr>,
     timers = [], next_timer = 1, live_tracks = [], next_stream = 1,
     alerts = [], console = [], uncaught = [], loaded = False,
     models_pending = False, media_pending = 0, detect_pending = 0\<rparr>"


section \<open>Reading the grid\<close>

definition item_of :: "session \<Rightarrow> string \<Rightarrow> emotion_item option" where
  "item_of s emotion = map_of (emotionsList s) (''emotion-'' @ emotion)"

definition is_active :: "session \<Rightarrow> string \<Rightarrow> bool" where
  "is_active s emotion = (case item_of s emotion of Some it \<Rightarrow> active it | None \<Rightarrow> False)"

text \<open>
  The zero state of an entry: the value text \<^verbatim>\<open>0%\<close>, no width assigned to the bar (the
  style sheet's own width applies) and no highlight.
\<close>

definition at_zero :: "session \<Rightarrow> string \<Rightarrow> bool" where
  "at_zero s emotion =
    (case item_of s emotion of
       Some it \<Rightarrow> value_text it = ''0%'' \<and> fill_width it = [] \<and> \<not> active it
     | None \<Rightarrow> False)"

text \<open>The grid holds an item for each registered emotion.\<close>

definition grid_ready :: "session \<Rightarrow> bool" where
  "grid_ready s = list_all (\<lambda>emotion. item_of s emotion \<noteq> None) emotion_labels"

section \<open>Example inputs\<close>

definition example_box :: box where
  "example_box = \<lparr>box_x = 10, box_y = 20, box_width = 100, box_height = 120\<rparr>"

definition example_face :: detection where
  "example_face =
    \<lparr>expressions =
       [(''happy'', 82 / 100), (''sad'', 10 / 100), (''neutral'', 5 / 100), (''angry'', 1 / 100),
        (''fearful'', 1 / 100), (''disgusted'', 5 / 1000), (''surprised'', 5 / 1000)],
     detection_box = example_box\<rparr>"

definition face_with :: "(string \<times> rat) list \<Rightarrow> detection" where
  "face_with entries = \<lparr>expressions = entries, detection_box = example_box\<rparr>"

text \<open>
  The page after the models have loaded, and after the camera has been started and its
  metadata has arrived (timer 1 is running).
\<close>

definition loaded_page :: session where
  "loaded_page = fire ModelsLoaded (fire PageLoad fresh_page)"

definition camera_page :: session where
  "camera_page = fire (LoadedMetadata 640 480) (fire MediaGranted (fire Click loaded_page))"

text \<open>The camera page with one detection call in flight.\<close>

definition detecting_page :: session where
  "detecting_page = fire (TimerFires 1) camera_page"


text \<open>
  Two ticks on the camera page: a face with \<^verbatim>\<open>happy\<close> ahead of \<^verbatim>\<open>sad\<close>, then a face
  whose mapping has \<^verbatim>\<open>sad\<close> alone.
\<close>

definition happy_then_sad_page :: session where
  "happy_then_sad_page =
    fire (DetectDone (Inr [face_with [(''sad'', 8 / 10)]]))
      (fire (TimerFires 1)
        (fire (DetectDone (Inr [face_with [(''happy'', 9 / 10), (''sad'', 1 / 10)]])) detecting_page))"

text \<open>The loaded page after a click on the toggle and a refused camera request.\<close>

definition denied_page :: session where
  "denied_page = fire (MediaDenied (Rejected ''NotAllowedError'')) (fire Click loaded_page)"

text \<open>A face whose only label is not registered.\<close>

definition foo_face :: detection where
  "foo_face = face_with [(''foo'', 1 / 2)]"

section \<open>An invariant of the session\<close>

text \<open>
  At most the timer of the current handle is active, handles are never 0, and the
  drawing context is set whenever the camera runs or a detection call is in flight.
\<close>

definition session_inv :: "session \<Rightarrow> bool" where
  "session_inv s =
    ((timers s = [] \<or> (case detectingInterval s of Some i \<Rightarrow> i \<noteq> 0 \<and> timers s = [i] | None \<Rightarrow> False))
     \<and> 0 < next_timer s
     \<and> ((isVideoRunning s \<or> 0 < detect_pending s) \<longrightarrow> ctx s \<noteq> None))"

section \<open>Properties of the tick\<close>

subsection \<open>The arg-max of the first loop\<close>

lemma dominant_step_pair:
  "dominant_step (l0, v0) (l, v) = (if v0 < v then (l, v) else (l0, v0))"
  by (simp add: dominant_step_def)

lemma dominant_step_keep:
  "\<forall>e\<in>set es. snd e \<le> v0 \<Longrightarrow> foldl dominant_step (l0, v0) es = (l0, v0)"
  by (induction es) (auto simp: dominant_step_pair)

lemma dominant_step_first_max:
  "\<exists>e\<in>set es. v0 < snd e \<Longrightarrow>
   find (\<lambda>e. snd e = Max (snd ` set es)) es = Some (foldl dominant_step (l0, v0) es)
   \<and> v0 < Max (snd ` set es)"
proof (induction es arbitrary: l0 v0)
  case Nil
  then show ?case by simp
next
  case (Cons a es)
  obtain l1 v1 where a: "a = (l1, v1)" by (cases a)
  show ?case
  proof (cases "v0 < v1")
    case True
    note gt = True
    show ?thesis
    proof (cases "\<exists>e\<in>set es. v1 < snd e")
      case True
      from Cons.IH [OF True, of l1]
      have ih: "find (\<lambda>e. snd e = Max (snd ` set es)) es = Some (foldl dominant_step (l1, v1) es)"
        and m: "v1 < Max (snd ` set es)" by auto
      from True have ne: "set es \<noteq> {}" by auto
      have M: "Max (snd ` set (a # es)) = Max (snd ` set es)"
        using m ne by (simp add: a max_def)
      show ?thesis using ih m gt M by (simp add: a dominant_step_pair)
    next
      case False
      then have le: "\<forall>e\<in>set es. snd e \<le> v1" by (auto simp: not_less)
      have M: "Max (snd ` set (a # es)) = v1"
        using le by (cases "es = []") (auto simp: a max_def intro!: antisym)
      show ?thesis using dominant_step_keep [OF le, of l1] gt M
        by (simp add: a dominant_step_pair)
    qed
  next
    case False
    with Cons.prems have ex: "\<exists>e\<in>set es. v0 < snd e" by (auto simp: a)
    from Cons.IH [OF ex, of l0]
    have ih: "find (\<lambda>e. snd e = Max (snd ` set es)) es = Some (foldl dominant_step (l0, v0) es)"
      and m: "v0 < Max (snd ` set es)" by auto
    from ex have ne: "set es \<noteq> {}" by auto
    have M: "Max (snd ` set (a # es)) = Max (snd ` set es)"
      using m ne False by (simp add: a max_def)
    show ?thesis using ih m False M by (simp add: a dominant_step_pair)
  qed
qed

lemma dominant_baseline: "\<forall>e\<in>set es. snd e \<le> 0 \<Longrightarrow> dominant es = (''neutral'', 0)"
  unfolding dominant_def by (rule dominant_step_keep)

lemma dominant_first_max:
  "\<exists>e\<in>set es. 0 < snd e \<Longrightarrow>
   find (\<lambda>e. snd e = Max (snd ` set es)) es = Some (dominant es) \<and> 0 < Max (snd ` set es)"
  unfolding dominant_def by (rule dominant_step_first_max)

subsection \<open>What the second loop changes\<close>

lemma update_emotion_frame:
  "snd (update_emotion m e s) = s\<lparr>emotionsList := emotionsList (snd (update_emotion m e s))\<rparr>"
  by (auto simp: update_emotion_def Let_def split: prod.splits option.splits element.splits)

lemma update_emotions_frame:
  "snd (update_emotions m es s) = s\<lparr>emotionsList := emotionsList (snd (update_emotions m es s))\<rparr>"
proof (induction es arbitrary: s)
  case Nil
  then show ?case by simp
next
  case (Cons e es)
  obtain r s1 where u: "update_emotion m e s = (r, s1)" by (cases "update_emotion m e s")
  from update_emotion_frame [of m e s] u
  have s1: "s1 = s\<lparr>emotionsList := emotionsList s1\<rparr>" by simp
  show ?case
  proof (cases r)
    case Normal
    from Cons.IH [of s1]
    have "snd (update_emotions m es s1) = s1\<lparr>emotionsList := emotionsList (snd (update_emotions m es s1))\<rparr>" .
    then have "snd (update_emotions m es s1) = s\<lparr>emotionsList := emotionsList (snd (update_emotions m es s1))\<rparr>"
      by (subst (asm) (2) s1) simp
    then show ?thesis using u Normal by simp
  next
    case (Throws x)
    then show ?thesis using u s1 by simp
  qed
qed

lemma item_of_update_emotion:
  "item_of (snd (update_emotion m (l', c) s)) l =
    (if l' = l \<and> l' \<noteq> ''name'' \<and> l' \<noteq> ''confidence''
     then map_option (\<lambda>it. it\<lparr>value_text := toFixed1 (c * 100) @ ''%'',
                               fill_width := toFixed1 (c * 100) @ ''%'',
                               active := (l' = m)\<rparr>) (item_of s l)
     else item_of s l)"
  by (auto simp: update_emotion_def getElementById_emotion_def item_of_def Let_def
        AList.map_of_map_entry split: option.splits)

lemma fst_update_emotion:
  "fst (update_emotion m (l', c) s) = (if l' = ''name'' \<or> l' = ''confidence'' then Throws TypeError else Normal)"
  by (auto simp: update_emotion_def getElementById_emotion_def Let_def split: option.splits)

lemma update_emotions_absent:
  "l \<notin> fst ` set es \<Longrightarrow> item_of (snd (update_emotions m es s)) l = item_of s l"
proof (induction es arbitrary: s)
  case Nil
  then show ?case by simp
next
  case (Cons e es)
  obtain l' c where e: "e = (l', c)" by (cases e)
  obtain r s1 where u: "update_emotion m (l', c) s = (r, s1)" by (cases "update_emotion m (l', c) s")
  from Cons.prems have ne: "l' \<noteq> l" and rest: "l \<notin> fst ` set es" by (auto simp: e)
  from item_of_update_emotion [of m l' c s l] u ne have s1: "item_of s1 l = item_of s l" by simp
  show ?case
  proof (cases r)
    case Normal
    then show ?thesis using u s1 Cons.IH [OF rest, of s1] by (simp add: e)
  next
    case (Throws x)
    then show ?thesis using u s1 by (simp add: e)
  qed
qed

lemma update_emotions_normal:
  "\<forall>e\<in>set es. fst e \<noteq> ''name'' \<and> fst e \<noteq> ''confidence'' \<Longrightarrow> fst (update_emotions m es s) = Normal"
proof (induction es arbitrary: s)
  case Nil
  then show ?case by simp
next
  case (Cons e es)
  obtain l' c where e: "e = (l', c)" by (cases e)
  obtain r s1 where u: "update_emotion m (l', c) s = (r, s1)" by (cases "update_emotion m (l', c) s")
  from fst_update_emotion [of m l' c s] u Cons.prems have r: "r = Normal" by (simp add: e)
  show ?case using u r Cons by (simp add: e)
qed

lemma update_emotions_active:
  assumes "distinct (map fst es)"
    and "\<forall>e\<in>set es. fst e \<noteq> ''name'' \<and> fst e \<noteq> ''confidence''"
    and "l \<in> fst ` set es"
    and "item_of s l \<noteq> None"
  shows "is_active (snd (update_emotions m es s)) l = (l = m)"
  using assms
proof (induction es arbitrary: s)
  case Nil
  then show ?case by simp
next
  case (Cons e es)
  obtain l' c where e: "e = (l', c)" by (cases e)
  obtain r s1 where u: "update_emotion m (l', c) s = (r, s1)" by (cases "update_emotion m (l', c) s")
  from fst_update_emotion [of m l' c s] u Cons.prems(2) have r: "r = Normal" by (simp add: e)
  from Cons.prems obtain it where it: "item_of s l = Some it" by auto
  have ok: "l' \<noteq> ''name'' \<and> l' \<noteq> ''confidence''" using Cons.prems(2) by (simp add: e)
  show ?case
  proof (cases "l' = l")
    case True
    with Cons.prems(1) have "l \<notin> fst ` set es" by (auto simp: e)
    from update_emotions_absent [OF this, of m s1]
    have "item_of (snd (update_emotions m es s1)) l = item_of s1 l" .
    moreover from item_of_update_emotion [of m l' c s l] u True ok it
    have "\<exists>it'. item_of s1 l = Some it' \<and> active it' = (l = m)" by auto
    ultimately show ?thesis using u r by (auto simp: e is_active_def)
  next
    case False
    with Cons.prems(3) have mem: "l \<in> fst ` set es" by (auto simp: e)
    from item_of_update_emotion [of m l' c s l] u False it
    have "item_of s1 l \<noteq> None" by simp
    from Cons.IH [OF _ _ mem this] Cons.prems(1,2)
    have "is_active (snd (update_emotions m es s1)) l = (l = m)" by (simp add: e)
    then show ?thesis using u r by (simp add: e)
  qed
qed

lemma draw_face_frame:
  "snd (draw_face m v b s) = s\<lparr>canvas := canvas (snd (draw_face m v b s))\<rparr>"
  by (simp add: draw_face_def Let_def split: property.splits)

lemma update_emotions_changes:
  "\<exists>g. snd (update_emotions m es s) = s\<lparr>emotionsList := g\<rparr>"
  by (rule exI, rule update_emotions_frame)

lemma draw_face_changes:
  "\<exists>c. snd (draw_face m v b s) = s\<lparr>canvas := c\<rparr>"
  by (rule exI, rule draw_face_frame)

text \<open>What a tick may change: blanking those fields makes the states equal.\<close>

lemma show_face_frame:
  "(snd (show_face d s))\<lparr>emotionsList := g, canvas := c\<rparr> =
    s\<lparr>emotionName_text := toUpperCase (fst (dominant (expressions d))),
      emotionConfidence_text := toFixed1 (snd (dominant (expressions d)) * 100) @ ''%'',
      emotionsList := g, canvas := c\<rparr>"
proof -
  obtain m v where dom: "dominant (expressions d) = (m, v)" by (cases "dominant (expressions d)")
  define s1 where "s1 = s\<lparr>emotionName_text := toUpperCase m,
                  emotionConfidence_text := toFixed1 (v * 100) @ ''%''\<rparr>"
  obtain r s2 where u: "update_emotions m (expressions d) s1 = (r, s2)"
    by (cases "update_emotions m (expressions d) s1")
  from update_emotions_changes [of m "expressions d" s1] u
  obtain g' where s2: "s2 = s1\<lparr>emotionsList := g'\<rparr>" by auto
  show ?thesis
  proof (cases r)
    case Normal
    then have sf: "show_face d s = draw_face m v (detection_box d) s2"
      using dom u by (simp add: show_face_def s1_def)
    from draw_face_changes [of m v "detection_box d" s2]
    obtain c' where "snd (draw_face m v (detection_box d) s2) = s2\<lparr>canvas := c'\<rparr>" by auto
    then show ?thesis by (simp add: sf s2 s1_def dom)
  next
    case (Throws x)
    then have sf: "show_face d s = (Throws x, s2)"
      using dom u by (simp add: show_face_def s1_def)
    show ?thesis by (simp add: sf s2 s1_def dom)
  qed
qed

lemma body_frame:
  "(snd (detectEmotions_body ds s))\<lparr>emotionsList := g, canvas := cv, emotionName_text := n,
       emotionConfidence_text := c, faceCount_text := f\<rparr> =
     s\<lparr>emotionsList := g, canvas := cv, emotionName_text := n,
       emotionConfidence_text := c, faceCount_text := f\<rparr>"
proof (cases "ctx s")
  case None
  then show ?thesis by (simp add: detectEmotions_body_def)
next
  case (Some a)
  show ?thesis
  proof (cases ds)
    case Nil
    then show ?thesis using Some
      by (simp add: detectEmotions_body_def Let_def initEmotionsGrid_def)
  next
    case (Cons d ds')
    define s2 where "s2 = s\<lparr>canvas := clearRect (canvas s),
            faceCount_text := ''Faces Detected: '' @ decimal (length ds)\<rparr>"
    have b: "detectEmotions_body ds s = show_face d s2"
      using Some Cons by (simp add: detectEmotions_body_def Let_def s2_def)
    show ?thesis unfolding b show_face_frame by (simp add: s2_def)
  qed
qed

lemma resume_normal: "fst (detectEmotions_resume r s) = Normal"
  by (simp add: detectEmotions_resume_def try_catch_def console_error_def
      split: sum.splits prod.splits outcome.splits)

lemma resume_frame:
  "(snd (detectEmotions_resume r s))\<lparr>emotionsList := g, canvas := cv, emotionName_text := n,
       emotionConfidence_text := c, faceCount_text := f, console := l\<rparr> =
     s\<lparr>emotionsList := g, canvas := cv, emotionName_text := n,
       emotionConfidence_text := c, faceCount_text := f, console := l\<rparr>"
proof (cases r)
  case (Inl e)
  then show ?thesis
    by (simp add: detectEmotions_resume_def try_catch_def console_error_def)
next
  case (Inr ds)
  obtain out s' where o: "detectEmotions_body ds s = (out, s')" by (cases "detectEmotions_body ds s")
  from body_frame [where ds=ds and s=s and n=n and c=c and f=f and g=g and cv=cv] o
  have "s'\<lparr>emotionsList := g, canvas := cv, emotionName_text := n,
       emotionConfidence_text := c, faceCount_text := f\<rparr> =
     s\<lparr>emotionsList := g, canvas := cv, emotionName_text := n,
       emotionConfidence_text := c, faceCount_text := f\<rparr>" by simp
  then show ?thesis using Inr o
    by (cases out) (simp_all add: detectEmotions_resume_def try_catch_def console_error_def)
qed

lemma resume_timers: "timers (snd (detectEmotions_resume r s)) = timers s"
  using arg_cong [OF resume_frame, of timers] by simp

section \<open>The example pages\<close>

lemmas page_defs = fresh_page_def loaded_page_def camera_page_def detecting_page_def
  load_start_def load_resume_def loadModels_start_def loadModels_resume_def initEmotionsGrid_def
  zero_item_def emotionMap_def toggle_click_def startWebcam_request_def startWebcam_granted_def
  startWebcam_denied_def on_loadedmetadata_def startDetection_def setInterval_def
  clear_if_set_def clearInterval_def resize_def finish_def detectEmotions_start_def
  stopWebcam_def stop_tracks_def clearRect_def beforeunload_def

lemma loaded_page_run: "run [PageLoad, ModelsLoaded] fresh_page = Some loaded_page"
  by (simp add: page_defs)

lemma camera_page_run:
  "run [PageLoad, ModelsLoaded, Click, MediaGranted, LoadedMetadata 640 480] fresh_page = Some camera_page"
  by (simp add: page_defs)

lemma detecting_page_run:
  "run [PageLoad, ModelsLoaded, Click, MediaGranted, LoadedMetadata 640 480, TimerFires 1] fresh_page = Some detecting_page"
  by (simp add: page_defs)

lemma camera_page_ctx: "ctx camera_page = Some Context2D"
  by (simp add: page_defs)

section \<open>Ticks without a face, and ticks without a positive score\<close>

lemma fire_DetectDone:
  "fire (DetectDone r) s = snd (detectEmotions_resume r (s\<lparr>detect_pending := detect_pending s - 1\<rparr>))"
proof -
  obtain out s' where o: "detectEmotions_resume r (s\<lparr>detect_pending := detect_pending s - 1\<rparr>) = (out, s')"
    by (cases "detectEmotions_resume r (s\<lparr>detect_pending := detect_pending s - 1\<rparr>)")
  with resume_normal [of r "s\<lparr>detect_pending := detect_pending s - 1\<rparr>"] have "out = Normal" by simp
  then show ?thesis using o by (simp add: finish_def)
qed

lemma resume_no_face:
  "ctx s \<noteq> None \<Longrightarrow>
   snd (detectEmotions_resume (Inr []) s) =
     initEmotionsGrid (s\<lparr>canvas := clearRect (canvas s), faceCount_text := ''Faces Detected: 0'',
        emotionName_text := ''--'', emotionConfidence_text := ''0%''\<rparr>)"
  by (auto simp: detectEmotions_resume_def try_catch_def detectEmotions_body_def Let_def
      decimal.simps digit_char_def)

lemma at_zero_init: "list_all (at_zero (initEmotionsGrid s)) emotion_labels"
  by (simp add: initEmotionsGrid_def emotion_labels_def emotionMap_def at_zero_def item_of_def
      zero_item_def)

lemma length_emotion_labels: "length emotion_labels = 7"
  by (simp add: emotion_labels_def emotionMap_def)

text \<open>
  C6. A tick whose detection result holds no face sets the dominant-emotion display to
  \<^verbatim>\<open>--\<close> and \<^verbatim>\<open>0%\<close> and rebuilds the grid, so each of the seven registered emotions
  is back at its zero state. A detection result is only processed with the drawing
  context set, which holds whenever a detection call is in flight.
\<close>

theorem C6_no_face_resets_display:
  assumes "ctx s \<noteq> None"
  shows "emotionName_text (fire (DetectDone (Inr [])) s) = ''--''
    \<and> emotionConfidence_text (fire (DetectDone (Inr [])) s) = ''0%''
    \<and> length emotion_labels = 7
    \<and> list_all (at_zero (fire (DetectDone (Inr [])) s)) emotion_labels"
proof -
  from assms have c: "ctx (s\<lparr>detect_pending := detect_pending s - 1\<rparr>) \<noteq> None" by simp
  show ?thesis
    unfolding fire_DetectDone resume_no_face [OF c]
    by (simp add: at_zero_init length_emotion_labels) (simp add: initEmotionsGrid_def)
qed

theorem C6_witness:
  "ctx detecting_page \<noteq> None
   \<and> emotionName_text (fire (DetectDone (Inr [])) detecting_page) = ''--''
   \<and> emotionConfidence_text (fire (DetectDone (Inr [])) detecting_page) = ''0%''
   \<and> list_all (at_zero (fire (DetectDone (Inr [])) detecting_page)) emotion_labels"
proof -
  have c: "ctx detecting_page \<noteq> None" by (simp add: page_defs)
  show ?thesis using c C6_no_face_resets_display [OF c] by simp
qed

lemma resume_face_texts:
  assumes "ctx s \<noteq> None"
  shows "emotionName_text (snd (detectEmotions_resume (Inr (d # ds)) s)) = toUpperCase (fst (dominant (expressions d)))"
    and "emotionConfidence_text (snd (detectEmotions_resume (Inr (d # ds)) s)) = toFixed1 (snd (dominant (expressions d)) * 100) @ ''%''"
proof -
  define s2 where "s2 = s\<lparr>canvas := clearRect (canvas s),
            faceCount_text := ''Faces Detected: '' @ decimal (length (d # ds))\<rparr>"
  have b: "detectEmotions_body (d # ds) s = show_face d s2"
    using assms by (auto simp: detectEmotions_body_def Let_def s2_def)
  obtain out s' where o: "show_face d s2 = (out, s')" by (cases "show_face d s2")
  have r: "snd (detectEmotions_resume (Inr (d # ds)) s) =
     (case out of Normal \<Rightarrow> s' | Throws e \<Rightarrow> s'\<lparr>console := console s' @ [ConsoleError ''Detection error:'' e]\<rparr>)"
    by (cases out) (simp_all add: detectEmotions_resume_def try_catch_def console_error_def b o)
  from arg_cong [OF show_face_frame [where d=d and s=s2 and g="[]" and c="canvas s"], of emotionName_text] o
  have n: "emotionName_text s' = toUpperCase (fst (dominant (expressions d)))" by simp
  from arg_cong [OF show_face_frame [where d=d and s=s2 and g="[]" and c="canvas s"], of emotionConfidence_text] o
  have c: "emotionConfidence_text s' = toFixed1 (snd (dominant (expressions d)) * 100) @ ''%''" by simp
  show "emotionName_text (snd (detectEmotions_resume (Inr (d # ds)) s)) = toUpperCase (fst (dominant (expressions d)))"
    unfolding r using n by (cases out) simp_all
  show "emotionConfidence_text (snd (detectEmotions_resume (Inr (d # ds)) s)) = toFixed1 (snd (dominant (expressions d)) * 100) @ ''%''"
    unfolding r using c by (cases out) simp_all
qed

lemma toFixed1_0: "toFixed1 0 = ''0.0''"
  by code_simp

lemma toUpperCase_neutral: "toUpperCase ''neutral'' = ''NEUTRAL''"
  by (simp add: toUpperCase_def upper_char_def)

text \<open>
  C9. When no score of the first face is greater than 0 (in particular when all are 0),
  the arg-max keeps its baseline, whatever the order of the entries: the display shows
  \<^verbatim>\<open>NEUTRAL\<close> with \<^verbatim>\<open>0.0%\<close>.
\<close>

theorem C9_no_positive_score_shows_neutral:
  assumes "ctx s \<noteq> None" and "\<forall>e\<in>set (expressions d). snd e \<le> 0"
  shows "emotionName_text (fire (DetectDone (Inr (d # ds))) s) = ''NEUTRAL''
    \<and> emotionConfidence_text (fire (DetectDone (Inr (d # ds))) s) = ''0.0%''"
proof -
  from assms(1) have c: "ctx (s\<lparr>detect_pending := detect_pending s - 1\<rparr>) \<noteq> None" by simp
  from dominant_baseline [OF assms(2)] have d: "dominant (expressions d) = (''neutral'', 0)" .
  show ?thesis
    unfolding fire_DetectDone resume_face_texts [OF c] d
    by (simp add: toFixed1_0 toUpperCase_neutral)
qed


theorem C9_witness:
  "ctx detecting_page \<noteq> None
   \<and> (\<forall>e\<in>set (expressions (face_with [(''sad'', 0), (''happy'', 0), (''neutral'', 0)])). snd e \<le> 0) = True
   \<and> emotionName_text (fire (DetectDone (Inr [face_with [(''sad'', 0), (''happy'', 0), (''neutral'', 0)]]))
        detecting_page) = ''NEUTRAL''
   \<and> emotionConfidence_text (fire (DetectDone (Inr [face_with [(''sad'', 0), (''happy'', 0), (''neutral'', 0)]]))
        detecting_page) = ''0.0%''"
proof -
  have c: "ctx detecting_page \<noteq> None" by (simp add: page_defs)
  have z: "\<forall>e\<in>set (expressions (face_with [(''sad'', 0), (''happy'', 0), (''neutral'', 0)])). snd e \<le> 0"
    by (simp add: face_with_def)
  show ?thesis using c z C9_no_positive_score_shows_neutral [OF c z, of "[]"] by simp
qed

section \<open>The dominant emotion on display\<close>

lemma draw_face_own:
  "emotionMap_get m = Own info \<Longrightarrow>
   draw_face m v b s =
     (Normal, s\<lparr>canvas :=
        fillText (emoji info @ '' '' @ toUpperCase m @ '' ('' @ toFixed1 (v * 100) @ ''%)'')
          (box_x b) (box_y b - 10)
          ((strokeRect (box_x b) (box_y b) (box_width b) (box_height b)
              ((canvas s)\<lparr>strokeStyle := color info, lineWidth := 3\<rparr>))
             \<lparr>fillStyle := color info, font := ''bold 18px Arial''\<rparr>)\<rparr>)"
  by (simp add: draw_face_def Let_def set_strokeStyle_def set_fillStyle_def color_of_def
      emoji_text_def)

lemma show_face_drawn:
  assumes "\<forall>e\<in>set (expressions d). fst e \<noteq> ''name'' \<and> fst e \<noteq> ''confidence''"
    and "emotionMap_get (fst (dominant (expressions d))) = Own info"
    and "drawn (canvas s) = []"
  shows "drawn (canvas (snd (show_face d s))) =
    [StrokeRect (color info) 3 (box_x (detection_box d)) (box_y (detection_box d))
       (box_width (detection_box d)) (box_height (detection_box d)),
     FillText (emoji info @ '' '' @ toUpperCase (fst (dominant (expressions d))) @ '' (''
                 @ toFixed1 (snd (dominant (expressions d)) * 100) @ ''%)'')
       (color info) ''bold 18px Arial'' (box_x (detection_box d)) (box_y (detection_box d) - 10)]"
proof -
  obtain m v where dom: "dominant (expressions d) = (m, v)" by (cases "dominant (expressions d)")
  define s1 where "s1 = s\<lparr>emotionName_text := toUpperCase m,
                  emotionConfidence_text := toFixed1 (v * 100) @ ''%''\<rparr>"
  obtain r s2 where u: "update_emotions m (expressions d) s1 = (r, s2)"
    by (cases "update_emotions m (expressions d) s1")
  from update_emotions_normal [OF assms(1), of m s1] u have r: "r = Normal" by simp
  from update_emotions_changes [of m "expressions d" s1] u
  obtain g' where s2: "s2 = s1\<lparr>emotionsList := g'\<rparr>" by auto
  have sf: "show_face d s = draw_face m v (detection_box d) s2"
    using dom u r by (simp add: show_face_def s1_def)
  from assms(2) dom have own: "emotionMap_get m = Own info" by simp
  show ?thesis
    unfolding sf draw_face_own [OF own] dom
    using assms(3) by (simp add: s2 s1_def fillText_def strokeRect_def)
qed

lemma resume_face_drawn:
  assumes "ctx s \<noteq> None"
    and "\<forall>e\<in>set (expressions d). fst e \<noteq> ''name'' \<and> fst e \<noteq> ''confidence''"
    and "emotionMap_get (fst (dominant (expressions d))) = Own info"
  shows "drawn (canvas (snd (detectEmotions_resume (Inr (d # ds)) s))) =
    [StrokeRect (color info) 3 (box_x (detection_box d)) (box_y (detection_box d))
       (box_width (detection_box d)) (box_height (detection_box d)),
     FillText (emoji info @ '' '' @ toUpperCase (fst (dominant (expressions d))) @ '' (''
                 @ toFixed1 (snd (dominant (expressions d)) * 100) @ ''%)'')
       (color info) ''bold 18px Arial'' (box_x (detection_box d)) (box_y (detection_box d) - 10)]"
proof -
  define s2 where "s2 = s\<lparr>canvas := clearRect (canvas s),
            faceCount_text := ''Faces Detected: '' @ decimal (length (d # ds))\<rparr>"
  have b: "detectEmotions_body (d # ds) s = show_face d s2"
    using assms(1) by (auto simp: detectEmotions_body_def Let_def s2_def)
  have clr: "drawn (canvas s2) = []" by (simp add: s2_def clearRect_def)
  obtain out s' where o: "show_face d s2 = (out, s')" by (cases "show_face d s2")
  have r: "canvas (snd (detectEmotions_resume (Inr (d # ds)) s)) = canvas s'"
    by (cases out) (simp_all add: detectEmotions_resume_def try_catch_def console_error_def b o)
  from show_face_drawn [OF assms(2,3) clr] o show ?thesis unfolding r by simp
qed

lemma dominant_example: "dominant (expressions example_face) = (''happy'', 82 / 100)"
  by (simp add: dominant_def example_face_def dominant_step_pair)

lemma toFixed1_82: "toFixed1 82 = ''82.0''"
  by code_simp

lemma toUpperCase_happy: "toUpperCase ''happy'' = ''HAPPY''"
  by (simp add: toUpperCase_def upper_char_def)

lemma emotionMap_get_happy:
  "emotionMap_get ''happy'' =
     Own \<lparr>emoji = [CHR 0xC3, CHR 0xB0, CHR 0xC5, CHR 0xB8, CHR 0xCB, CHR 0x9C, CHR 0xC5, CHR 0xA0],
          color = ''#90ee90''\<rparr>"
  by (simp add: emotionMap_get_def emotionMap_def)

lemma single_precision_times_100: "single_precision v \<Longrightarrow> exact_double (v * 100)"
proof -
  assume "single_precision v"
  then obtain k where k: "k < 150" and w: "whole_below 24 (v * 2 ^ k)"
    by (auto simp: single_precision_def list_ex_iff)
  define n where "n = \<lfloor>v * 2 ^ k\<rfloor>"
  from w have "of_int \<lfloor>v * 2 ^ k\<rfloor> = v * 2 ^ k" unfolding whole_below_def by (rule conjunct1)
  then have n: "v * 2 ^ k = of_int n" unfolding n_def by (rule sym)
  from w have "\<bar>v * 2 ^ k\<bar> < 2 ^ 24" unfolding whole_below_def by (rule conjunct2)
  then have "\<bar>(of_int n :: rat)\<bar> < of_int (2 ^ 24)" unfolding n by simp
  then have b: "\<bar>n\<bar> < 2 ^ 24"
    unfolding of_int_abs [symmetric] of_int_less_iff .
  have p: "v * 100 * 2 ^ k = of_int (100 * n)" using n by simp
  from b have "\<bar>100 * n\<bar> < 2 ^ 53" by simp
  then have "\<bar>(of_int (100 * n) :: rat)\<bar> < of_int (2 ^ 53)"
    unfolding of_int_abs [symmetric] of_int_less_iff .
  then have "\<bar>(of_int (100 * n) :: rat)\<bar> < 2 ^ 53" by simp
  moreover have "of_int \<lfloor>(of_int (100 * n) :: rat)\<rfloor> = (of_int (100 * n) :: rat)"
    by (simp only: floor_of_int)
  ultimately have "whole_below 53 (v * 100 * 2 ^ k)"
    unfolding p whole_below_def by (rule conjI [rotated])
  moreover from k have "k \<in> set [0..<1075]" by simp
  ultimately show ?thesis unfolding exact_double_def list_ex_iff by blast
qed

text \<open>
  The double nearest to 0.82 is \<open>7385903388887613 / 2\<^sup>5\<^sup>3\<close>; its exact product by 100
  rounds to the same text as 82, the double the script gets for the product.
\<close>

lemma toFixed1_double_0_82: "toFixed1 (7385903388887613 / 2 ^ 53 * 100) = ''82.0''"
  by code_simp

text \<open>
  C4. On a tick with a face the display shows the result of the first loop over the
  first face's entries: its label upper-cased (stated for ASCII labels, where the model
  of \<^verbatim>\<open>toUpperCase\<close> is the script's) and its score times 100 to one decimal place
  (stated for scores whose product by 100 is exact in doubles, as it is for every
  single-precision score, where the model of the product and of \<^verbatim>\<open>toFixed(1)\<close> is the
  script's). That result is the first entry with the highest score when some score is
  positive, and the baseline \<^verbatim>\<open>neutral\<close> with 0 otherwise. For the scores and the box of
  the example the name is \<^verbatim>\<open>HAPPY\<close>, the confidence \<^verbatim>\<open>82.0%\<close>, and the canvas holds the
  rectangle at the box and the label, both in the color registered for \<^verbatim>\<open>happy\<close>.
\<close>

theorem C4_dominant_emotion_display:
  assumes "ctx s \<noteq> None"
  shows "(is_ascii (fst (dominant (expressions d))) \<longrightarrow>
          emotionName_text (fire (DetectDone (Inr (d # ds))) s)
            = toUpperCase (fst (dominant (expressions d))))
    \<and> (exact_double (snd (dominant (expressions d)) * 100) \<longrightarrow>
          emotionConfidence_text (fire (DetectDone (Inr (d # ds))) s)
            = toFixed1 (snd (dominant (expressions d)) * 100) @ ''%'')
    \<and> ((\<exists>e\<in>set (expressions d). 0 < snd e) \<longrightarrow>
          find (\<lambda>e. snd e = Max (snd ` set (expressions d))) (expressions d)
            = Some (dominant (expressions d)))
    \<and> ((\<forall>e\<in>set (expressions d). snd e \<le> 0) \<longrightarrow> dominant (expressions d) = (''neutral'', 0))
    \<and> emotionName_text (fire (DetectDone (Inr (example_face # ds))) s) = ''HAPPY''
    \<and> emotionConfidence_text (fire (DetectDone (Inr (example_face # ds))) s) = ''82.0%''
    \<and> (\<exists>info. map_of emotionMap ''happy'' = Some info
          \<and> drawn (canvas (fire (DetectDone (Inr (example_face # ds))) s))
              = [StrokeRect (color info) 3 10 20 100 120,
                 FillText (emoji info @ '' HAPPY (82.0%)'') (color info) ''bold 18px Arial'' 10 10])"
proof -
  from assms have c: "ctx (s\<lparr>detect_pending := detect_pending s - 1\<rparr>) \<noteq> None" by simp
  have "emotionName_text (fire (DetectDone (Inr (d # ds))) s)
           = toUpperCase (fst (dominant (expressions d)))"
    unfolding fire_DetectDone by (rule resume_face_texts [OF c])
  then have 1: "is_ascii (fst (dominant (expressions d))) \<longrightarrow>
          emotionName_text (fire (DetectDone (Inr (d # ds))) s)
            = toUpperCase (fst (dominant (expressions d)))" by blast
  have "emotionConfidence_text (fire (DetectDone (Inr (d # ds))) s)
           = toFixed1 (snd (dominant (expressions d)) * 100) @ ''%''"
    unfolding fire_DetectDone by (rule resume_face_texts [OF c])
  then have 2: "exact_double (snd (dominant (expressions d)) * 100) \<longrightarrow>
          emotionConfidence_text (fire (DetectDone (Inr (d # ds))) s)
            = toFixed1 (snd (dominant (expressions d)) * 100) @ ''%''" by blast
  have 3: "(\<exists>e\<in>set (expressions d). 0 < snd e) \<longrightarrow>
          find (\<lambda>e. snd e = Max (snd ` set (expressions d))) (expressions d)
            = Some (dominant (expressions d))"
    using dominant_first_max [of "expressions d"] by blast
  have 4: "(\<forall>e\<in>set (expressions d). snd e \<le> 0) \<longrightarrow> dominant (expressions d) = (''neutral'', 0)"
    using dominant_baseline [of "expressions d"] by blast
  have 5: "emotionName_text (fire (DetectDone (Inr (example_face # ds))) s) = ''HAPPY''"
    unfolding fire_DetectDone resume_face_texts [OF c] dominant_example
    by (simp add: toUpperCase_happy)
  have 6: "emotionConfidence_text (fire (DetectDone (Inr (example_face # ds))) s) = ''82.0%''"
    unfolding fire_DetectDone resume_face_texts [OF c] dominant_example
    by (simp add: toFixed1_82)
  have labels: "\<forall>e\<in>set (expressions example_face). fst e \<noteq> ''name'' \<and> fst e \<noteq> ''confidence''"
    by (simp add: example_face_def)
  have own: "emotionMap_get (fst (dominant (expressions example_face))) =
     Own \<lparr>emoji = [CHR 0xC3, CHR 0xB0, CHR 0xC5, CHR 0xB8, CHR 0xCB, CHR 0x9C, CHR 0xC5, CHR 0xA0],
          color = ''#90ee90''\<rparr>"
    by (simp add: dominant_example emotionMap_get_happy)
  have 7: "\<exists>info. map_of emotionMap ''happy'' = Some info
          \<and> drawn (canvas (fire (DetectDone (Inr (example_face # ds))) s))
              = [StrokeRect (color info) 3 10 20 100 120,
                 FillText (emoji info @ '' HAPPY (82.0%)'') (color info) ''bold 18px Arial'' 10 10]"
    unfolding fire_DetectDone resume_face_drawn [OF c labels own] dominant_example
    by (simp add: emotionMap_def toUpperCase_happy toFixed1_82 example_face_def example_box_def)
  from 1 2 3 4 5 6 7 show ?thesis by blast
qed

lemma toFixed1_37_5: "toFixed1 (75 / 2) = ''37.5''"
  by code_simp

lemma is_ascii_sad: "is_ascii ''sad''"
  by code_simp

lemma single_precision_3_8: "single_precision (3 / 8)"
  by code_simp

lemma exact_double_37_5: "exact_double (3 / 8 * 100)"
  by (rule single_precision_times_100 [OF single_precision_3_8])

theorem C4_witness:
  "ctx detecting_page \<noteq> None
   \<and> is_ascii ''sad''
   \<and> exact_double (3 / 8 * 100)
   \<and> emotionName_text (fire (DetectDone (Inr [face_with [(''sad'', 3 / 8), (''angry'', 3 / 8)]]))
        detecting_page) = ''SAD''
   \<and> emotionConfidence_text (fire (DetectDone (Inr [face_with [(''sad'', 3 / 8), (''angry'', 3 / 8)]]))
        detecting_page) = ''37.5%''
   \<and> emotionName_text (fire (DetectDone (Inr [example_face])) detecting_page) = ''HAPPY''
   \<and> emotionConfidence_text (fire (DetectDone (Inr [example_face])) detecting_page) = ''82.0%''"
proof -
  have c: "ctx detecting_page \<noteq> None" by (simp add: page_defs)
  have d: "dominant (expressions (face_with [(''sad'', 3 / 8), (''angry'', 3 / 8)])) = (''sad'', 3 / 8)"
    by (simp add: dominant_def face_with_def dominant_step_pair)
  have u: "toUpperCase ''sad'' = ''SAD''" by (simp add: toUpperCase_def upper_char_def)
  have a: "is_ascii (fst (''sad'', 3 / 8 :: rat))" by (simp add: is_ascii_sad)
  have x: "exact_double (snd (''sad'', 3 / 8 :: rat) * 100)" using exact_double_37_5 by simp
  have t: "toFixed1 (snd (''sad'', 3 / 8 :: rat) * 100) = ''37.5''" using toFixed1_37_5 by simp
  from C4_dominant_emotion_display [OF c, of "face_with [(''sad'', 3 / 8), (''angry'', 3 / 8)]" "[]"]
  have r: "emotionName_text (fire (DetectDone (Inr [face_with [(''sad'', 3 / 8), (''angry'', 3 / 8)]]))
        detecting_page) = ''SAD''
      \<and> emotionConfidence_text (fire (DetectDone (Inr [face_with [(''sad'', 3 / 8), (''angry'', 3 / 8)]]))
        detecting_page) = ''37.5%''
      \<and> emotionName_text (fire (DetectDone (Inr [example_face])) detecting_page) = ''HAPPY''
      \<and> emotionConfidence_text (fire (DetectDone (Inr [example_face])) detecting_page) = ''82.0%''"
    unfolding d using a x t u by simp
  from c is_ascii_sad exact_double_37_5 r show ?thesis by blast
qed

section \<open>Errors during a tick\<close>

lemma resume_rejected:
  "detectEmotions_resume (Inl e) s =
     (Normal, s\<lparr>console := console s @ [ConsoleError ''Detection error:'' e]\<rparr>)"
  by (simp add: detectEmotions_resume_def try_catch_def console_error_def)

lemma resume_thrown:
  "fst (detectEmotions_body ds s) = Throws e \<Longrightarrow>
   console (snd (detectEmotions_resume (Inr ds) s)) = console s @ [ConsoleError ''Detection error:'' e]"
proof -
  assume t: "fst (detectEmotions_body ds s) = Throws e"
  obtain out s' where o: "detectEmotions_body ds s = (out, s')" by (cases "detectEmotions_body ds s")
  from arg_cong [OF body_frame [where ds=ds and s=s], of console]
  have "console (snd (detectEmotions_body ds s)) = console s" by simp
  with o have "console s' = console s" by simp
  with t o show ?thesis
    by (simp add: detectEmotions_resume_def try_catch_def console_error_def)
qed

lemma fire_DetectDone_frame:
  "(fire (DetectDone r) s)\<lparr>emotionsList := g, canvas := cv, emotionName_text := n,
       emotionConfidence_text := c, faceCount_text := f, console := l\<rparr> =
     s\<lparr>detect_pending := detect_pending s - 1, emotionsList := g, canvas := cv, emotionName_text := n,
       emotionConfidence_text := c, faceCount_text := f, console := l\<rparr>"
  unfolding fire_DetectDone resume_frame by simp

text \<open>
  C7 as stated fails: an error raised while a result is processed leaves the updates
  made before it. With the single entry \<^verbatim>\<open>foo\<close>, which is not registered, the name and
  confidence are written, then \<^verbatim>\<open>emotionMap[maxEmotion].color\<close> throws.
\<close>

theorem C7_partial_update_counterexample:
  "enabled detecting_page (DetectDone (Inr [foo_face]))
   \<and> fst (detectEmotions_body [foo_face] (detecting_page\<lparr>detect_pending := detect_pending detecting_page - 1\<rparr>))
       = Throws TypeError
   \<and> emotionName_text (fire (DetectDone (Inr [foo_face])) detecting_page) = ''FOO''
   \<and> emotionName_text (fire (DetectDone (Inr [foo_face])) detecting_page)
       \<noteq> emotionName_text detecting_page
   \<and> emotionConfidence_text (fire (DetectDone (Inr [foo_face])) detecting_page) = ''50.0%''
   \<and> emotionConfidence_text (fire (DetectDone (Inr [foo_face])) detecting_page)
       \<noteq> emotionConfidence_text detecting_page"
  by code_simp

text \<open>
  C7, amended. A tick never lets an error escape, shows no alert, and leaves the timers,
  the running flag and the toggle as they were. When the detection call itself fails,
  the only change is the logged error: the display is as before. When a statement that
  processes a result throws, the error is logged in the same way, and what was updated
  before that statement stays.
\<close>

theorem C7_tick_errors_are_logged:
  "fire (DetectDone (Inl e)) s =
      s\<lparr>detect_pending := detect_pending s - 1,
        console := console s @ [ConsoleError ''Detection error:'' e]\<rparr>
   \<and> fst (detectEmotions_resume r s) = Normal
   \<and> uncaught (fire (DetectDone r) s) = uncaught s
   \<and> alerts (fire (DetectDone r) s) = alerts s
   \<and> timers (fire (DetectDone r) s) = timers s
   \<and> isVideoRunning (fire (DetectDone r) s) = isVideoRunning s
   \<and> toggle_text (fire (DetectDone r) s) = toggle_text s
   \<and> toggle_disabled (fire (DetectDone r) s) = toggle_disabled s
   \<and> loadingIndicator_text (fire (DetectDone r) s) = loadingIndicator_text s
   \<and> (fst (detectEmotions_body ds (s\<lparr>detect_pending := detect_pending s - 1\<rparr>)) = Throws e' \<longrightarrow>
        console (fire (DetectDone (Inr ds)) s) = console s @ [ConsoleError ''Detection error:'' e'])"
proof -
  have 1: "fire (DetectDone (Inl e)) s =
      s\<lparr>detect_pending := detect_pending s - 1,
        console := console s @ [ConsoleError ''Detection error:'' e]\<rparr>"
    unfolding fire_DetectDone resume_rejected by simp
  have 2: "fst (detectEmotions_resume r s) = Normal" by (rule resume_normal)
  have 3: "uncaught (fire (DetectDone r) s) = uncaught s"
    using arg_cong [OF fire_DetectDone_frame [where r=r and s=s], of uncaught] by simp
  have 4: "alerts (fire (DetectDone r) s) = alerts s"
    using arg_cong [OF fire_DetectDone_frame [where r=r and s=s], of alerts] by simp
  have 5: "timers (fire (DetectDone r) s) = timers s"
    using arg_cong [OF fire_DetectDone_frame [where r=r and s=s], of timers] by simp
  have 6: "isVideoRunning (fire (DetectDone r) s) = isVideoRunning s"
    using arg_cong [OF fire_DetectDone_frame [where r=r and s=s], of isVideoRunning] by simp
  have 7: "toggle_text (fire (DetectDone r) s) = toggle_text s"
    using arg_cong [OF fire_DetectDone_frame [where r=r and s=s], of toggle_text] by simp
  have 8: "toggle_disabled (fire (DetectDone r) s) = toggle_disabled s"
    using arg_cong [OF fire_DetectDone_frame [where r=r and s=s], of toggle_disabled] by simp
  have 9: "loadingIndicator_text (fire (DetectDone r) s) = loadingIndicator_text s"
    using arg_cong [OF fire_DetectDone_frame [where r=r and s=s], of loadingIndicator_text] by simp
  have 10: "fst (detectEmotions_body ds (s\<lparr>detect_pending := detect_pending s - 1\<rparr>)) = Throws e' \<longrightarrow>
        console (fire (DetectDone (Inr ds)) s) = console s @ [ConsoleError ''Detection error:'' e']"
    unfolding fire_DetectDone using resume_thrown [of ds "s\<lparr>detect_pending := detect_pending s - 1\<rparr>" e']
    by simp
  from 1 2 3 4 5 6 7 8 9 10 show ?thesis by blast
qed

theorem C7_witness:
  "fst (detectEmotions_body [foo_face] (detecting_page\<lparr>detect_pending := detect_pending detecting_page - 1\<rparr>))
       = Throws TypeError
   \<and> console (fire (DetectDone (Inr [foo_face])) detecting_page)
       = console detecting_page @ [ConsoleError ''Detection error:'' TypeError]
   \<and> uncaught (fire (DetectDone (Inr [foo_face])) detecting_page) = uncaught detecting_page
   \<and> timers (fire (DetectDone (Inr [foo_face])) detecting_page) = [1]"
proof -
  have t: "fst (detectEmotions_body [foo_face] (detecting_page\<lparr>detect_pending := detect_pending detecting_page - 1\<rparr>))
       = Throws TypeError" by code_simp
  have tm: "timers detecting_page = [1]" by (simp add: page_defs)
  show ?thesis
    using t tm C7_tick_errors_are_logged [of "Rejected []" detecting_page "Inr [foo_face]" "[foo_face]" TypeError]
    by simp
qed

section \<open>The highlight in the grid\<close>

lemma update_emotions_item_kept:
  "item_of s l \<noteq> None \<Longrightarrow> item_of (snd (update_emotions m es s)) l \<noteq> None"
proof (induction es arbitrary: s)
  case Nil
  then show ?case by simp
next
  case (Cons e es)
  obtain l' c where e: "e = (l', c)" by (cases e)
  obtain r s1 where u: "update_emotion m (l', c) s = (r, s1)" by (cases "update_emotion m (l', c) s")
  from item_of_update_emotion [of m l' c s l] u Cons.prems have s1: "item_of s1 l \<noteq> None"
    by (auto split: if_splits)
  show ?case
  proof (cases r)
    case Normal
    then show ?thesis using u Cons.IH [OF s1] by (simp add: e)
  next
    case (Throws x)
    then show ?thesis using u s1 by (simp add: e)
  qed
qed

lemma update_emotions_highlight:
  assumes "\<forall>e\<in>set es. fst e \<noteq> ''name'' \<and> fst e \<noteq> ''confidence''"
    and "l \<in> fst ` set es"
    and "item_of s l \<noteq> None"
  shows "is_active (snd (update_emotions m es s)) l = (l = m)"
  using assms
proof (induction es arbitrary: s)
  case Nil
  then show ?case by simp
next
  case (Cons e es)
  obtain l' c where e: "e = (l', c)" by (cases e)
  obtain r s1 where u: "update_emotion m (l', c) s = (r, s1)" by (cases "update_emotion m (l', c) s")
  from fst_update_emotion [of m l' c s] u Cons.prems(1) have r: "r = Normal" by (simp add: e)
  from Cons.prems obtain it where it: "item_of s l = Some it" by auto
  have ok: "l' \<noteq> ''name'' \<and> l' \<noteq> ''confidence''" using Cons.prems(1) by (simp add: e)
  from item_of_update_emotion [of m l' c s l] u it
  have kept: "item_of s1 l \<noteq> None" by (auto split: if_splits)
  have rest: "\<forall>e\<in>set es. fst e \<noteq> ''name'' \<and> fst e \<noteq> ''confidence''" using Cons.prems(1) by simp
  show ?case
  proof (cases "l \<in> fst ` set es")
    case True
    from Cons.IH [OF rest True kept] show ?thesis using u r by (simp add: e)
  next
    case False
    with Cons.prems(2) have same: "l' = l" by (auto simp: e)
    from update_emotions_absent [OF False, of m s1]
    have "item_of (snd (update_emotions m es s1)) l = item_of s1 l" .
    moreover from item_of_update_emotion [of m l' c s l] u same ok it
    have "\<exists>it'. item_of s1 l = Some it' \<and> active it' = (l = m)" by auto
    ultimately show ?thesis using u r by (auto simp: e is_active_def)
  qed
qed

lemma show_face_list:
  "emotionsList (snd (show_face d s)) =
    emotionsList (snd (update_emotions (fst (dominant (expressions d))) (expressions d)
      (s\<lparr>emotionName_text := toUpperCase (fst (dominant (expressions d))),
         emotionConfidence_text := toFixed1 (snd (dominant (expressions d)) * 100) @ ''%''\<rparr>)))"
proof -
  obtain m v where dom: "dominant (expressions d) = (m, v)" by (cases "dominant (expressions d)")
  define s1 where "s1 = s\<lparr>emotionName_text := toUpperCase m,
                  emotionConfidence_text := toFixed1 (v * 100) @ ''%''\<rparr>"
  obtain r s2 where u: "update_emotions m (expressions d) s1 = (r, s2)"
    by (cases "update_emotions m (expressions d) s1")
  show ?thesis
  proof (cases r)
    case Normal
    then have sf: "show_face d s = draw_face m v (detection_box d) s2"
      using dom u by (simp add: show_face_def s1_def)
    from draw_face_changes [of m v "detection_box d" s2]
    obtain c' where "snd (draw_face m v (detection_box d) s2) = s2\<lparr>canvas := c'\<rparr>" by auto
    then show ?thesis using u by (simp add: sf dom s1_def)
  next
    case (Throws x)
    then have sf: "show_face d s = (Throws x, s2)"
      using dom u by (simp add: show_face_def s1_def)
    show ?thesis using u by (simp add: sf dom s1_def)
  qed
qed

lemma resume_face_list:
  assumes "ctx s \<noteq> None"
  shows "emotionsList (snd (detectEmotions_resume (Inr (d # ds)) s)) =
    emotionsList (snd (update_emotions (fst (dominant (expressions d))) (expressions d)
      (s\<lparr>canvas := clearRect (canvas s),
         faceCount_text := ''Faces Detected: '' @ decimal (length (d # ds)),
         emotionName_text := toUpperCase (fst (dominant (expressions d))),
         emotionConfidence_text := toFixed1 (snd (dominant (expressions d)) * 100) @ ''%''\<rparr>)))"
proof -
  define s2 where "s2 = s\<lparr>canvas := clearRect (canvas s),
            faceCount_text := ''Faces Detected: '' @ decimal (length (d # ds))\<rparr>"
  have b: "detectEmotions_body (d # ds) s = show_face d s2"
    using assms by (auto simp: detectEmotions_body_def Let_def s2_def)
  obtain out s' where o: "show_face d s2 = (out, s')" by (cases "show_face d s2")
  have r: "emotionsList (snd (detectEmotions_resume (Inr (d # ds)) s)) = emotionsList s'"
    by (cases out) (simp_all add: detectEmotions_resume_def try_catch_def console_error_def b o)
  from show_face_list [of d s2] o show ?thesis unfolding r by (simp add: s2_def)
qed

lemma item_of_cong: "emotionsList s = emotionsList s' \<Longrightarrow> item_of s l = item_of s' l"
  by (simp add: item_of_def)

lemma is_active_cong: "emotionsList s = emotionsList s' \<Longrightarrow> is_active s l = is_active s' l"
  by (simp add: is_active_def item_of_def)

lemma filter_eq_single: "distinct xs \<Longrightarrow> m \<in> set xs \<Longrightarrow> filter (\<lambda>l. l = m) xs = [m]"
  by (induction xs) (auto simp: filter_empty_conv)

lemma distinct_emotion_labels: "distinct emotion_labels"
  by (simp add: emotion_labels_def emotionMap_def)

lemma emotion_labels_no_collision: "''name'' \<notin> set emotion_labels \<and> ''confidence'' \<notin> set emotion_labels"
  by (simp add: emotion_labels_def emotionMap_def)

lemma neutral_registered: "''neutral'' \<in> set emotion_labels"
  by (simp add: emotion_labels_def emotionMap_def)

lemma find_Some_mem: "find P xs = Some x \<Longrightarrow> x \<in> set xs \<and> P x"
  by (induction xs) (simp_all split: if_splits)

lemma dominant_is_max:
  assumes "\<forall>e\<in>set es. 0 \<le> snd e" and "''neutral'' \<in> fst ` set es"
  shows "dominant es \<in> set es \<and> snd (dominant es) = Max (snd ` set es)"
proof (cases "\<exists>e\<in>set es. 0 < snd e")
  case True
  from dominant_first_max [OF True]
  have "find (\<lambda>e. snd e = Max (snd ` set es)) es = Some (dominant es)" by simp
  from find_Some_mem [OF this] show ?thesis by simp
next
  case False
  have z: "\<forall>e\<in>set es. snd e = 0"
  proof
    fix e assume e: "e \<in> set es"
    with False have "\<not> 0 < snd e" by blast
    moreover from assms(1) e have "0 \<le> snd e" by blast
    ultimately show "snd e = 0" by simp
  qed
  then have "\<forall>e\<in>set es. snd e \<le> 0" by simp
  from dominant_baseline [OF this] have d: "dominant es = (''neutral'', 0)" .
  from assms(2) obtain c where c: "(''neutral'', c) \<in> set es" by auto
  with z have c0: "c = 0" by force
  from c have "c \<in> snd ` set es" by force
  then have ne: "snd ` set es \<noteq> {}" by auto
  from z have "snd ` set es \<subseteq> {0}" by blast
  then have "snd ` set es = {} \<or> snd ` set es = {0}" by (rule subset_singletonD)
  with ne have "snd ` set es = {0}" by metis
  then show ?thesis using d c c0 by simp
qed

text \<open>
  C5 as stated fails: the second loop touches only the entries of the mapping, so an
  entry highlighted by an earlier tick keeps its highlight when its label is missing
  from a later result. After a tick with \<^verbatim>\<open>happy\<close> ahead and a tick with \<^verbatim>\<open>sad\<close> alone,
  two entries are highlighted.
\<close>

theorem C5_two_highlights_counterexample:
  "run [DetectDone (Inr [face_with [(''happy'', 9 / 10), (''sad'', 1 / 10)]]),
        TimerFires 1,
        DetectDone (Inr [face_with [(''sad'', 8 / 10)]])] detecting_page
     = Some happy_then_sad_page
   \<and> filter (is_active happy_then_sad_page) emotion_labels = [''happy'', ''sad'']"
  by code_simp

text \<open>
  C5, amended. When the first face's mapping has exactly the seven registered labels
  and no negative score, then after the tick exactly one registered entry is
  highlighted: the one the first loop chose, whose score is the maximum of the mapping.
\<close>

theorem C5_one_highlight_on_full_mapping:
  assumes "ctx s \<noteq> None" and "grid_ready s"
    and "set (map fst (expressions d)) = set emotion_labels"
    and "\<forall>e\<in>set (expressions d). 0 \<le> snd e"
  shows "filter (is_active (fire (DetectDone (Inr (d # ds))) s)) emotion_labels
           = [fst (dominant (expressions d))]
    \<and> dominant (expressions d) \<in> set (expressions d)
    \<and> snd (dominant (expressions d)) = Max (snd ` set (expressions d))"
proof -
  let ?es = "expressions d" and ?m = "fst (dominant (expressions d))"
  define s0 where "s0 = s\<lparr>detect_pending := detect_pending s - 1\<rparr>"
  define s1 where "s1 = s0\<lparr>canvas := clearRect (canvas s0),
         faceCount_text := ''Faces Detected: '' @ decimal (length (d # ds)),
         emotionName_text := toUpperCase ?m,
         emotionConfidence_text := toFixed1 (snd (dominant ?es) * 100) @ ''%''\<rparr>"
  have c: "ctx s0 \<noteq> None" using assms(1) by (simp add: s0_def)
  have list: "emotionsList (fire (DetectDone (Inr (d # ds))) s)
     = emotionsList (snd (update_emotions ?m ?es s1))"
    unfolding fire_DetectDone using resume_face_list [OF c, of d ds] by (simp add: s0_def s1_def)
  have labels: "fst ` set ?es = set emotion_labels" using assms(3) by simp
  have ok: "\<forall>e\<in>set ?es. fst e \<noteq> ''name'' \<and> fst e \<noteq> ''confidence''"
    using labels emotion_labels_no_collision by (metis imageI)
  have ready: "\<forall>l\<in>set emotion_labels. item_of s1 l \<noteq> None"
    using assms(2) by (simp add: grid_ready_def list_all_iff item_of_def s1_def s0_def)
  have act: "\<forall>l\<in>set emotion_labels. is_active (fire (DetectDone (Inr (d # ds))) s) l = (l = ?m)"
  proof
    fix l assume l: "l \<in> set emotion_labels"
    with labels have mem: "l \<in> fst ` set ?es" by simp
    from ready l have it: "item_of s1 l \<noteq> None" by simp
    from update_emotions_highlight [OF ok mem it, of ?m] is_active_cong [OF list, of l]
    show "is_active (fire (DetectDone (Inr (d # ds))) s) l = (l = ?m)" by simp
  qed
  have neutral: "''neutral'' \<in> fst ` set ?es" using labels neutral_registered by simp
  from dominant_is_max [OF assms(4) neutral]
  have mx: "dominant ?es \<in> set ?es \<and> snd (dominant ?es) = Max (snd ` set ?es)" .
  then have "?m \<in> fst ` set ?es" by (metis imageI)
  with labels have m: "?m \<in> set emotion_labels" by simp
  have "filter (is_active (fire (DetectDone (Inr (d # ds))) s)) emotion_labels
     = filter (\<lambda>l. l = ?m) emotion_labels"
    using act by (auto intro: filter_cong)
  also have "\<dots> = [?m]" by (rule filter_eq_single [OF distinct_emotion_labels m])
  finally show ?thesis using mx by simp
qed

theorem C5_witness:
  "ctx detecting_page \<noteq> None \<and> grid_ready detecting_page
   \<and> set (map fst (expressions example_face)) = set emotion_labels
   \<and> filter (is_active (fire (DetectDone (Inr [example_face])) detecting_page)) emotion_labels
        = [''happy'']
   \<and> Max (snd ` set (expressions example_face)) = 82 / 100"
proof -
  have c: "ctx detecting_page \<noteq> None" by (simp add: page_defs)
  have g: "grid_ready detecting_page"
    by (simp add: page_defs grid_ready_def item_of_def emotion_labels_def)
  have l: "set (map fst (expressions example_face)) = set emotion_labels"
    by (auto simp: example_face_def emotion_labels_def emotionMap_def)
  have p: "\<forall>e\<in>set (expressions example_face). 0 \<le> snd e"
    by (simp add: example_face_def)
  show ?thesis
    using c g l C5_one_highlight_on_full_mapping [OF c g l p, of "[]"]
    by (simp add: dominant_example)
qed

section \<open>Labels outside the mapping, labels outside the registry\<close>

lemma tick_absent_unchanged:
  assumes "l \<notin> fst ` set (expressions d)"
  shows "item_of (fire (DetectDone (Inr (d # ds))) s) l = item_of s l"
proof (cases "ctx s")
  case None
  then have "detectEmotions_body (d # ds) (s\<lparr>detect_pending := detect_pending s - 1\<rparr>)
      = (Throws TypeError, s\<lparr>detect_pending := detect_pending s - 1\<rparr>)"
    by (simp add: detectEmotions_body_def)
  then show ?thesis unfolding fire_DetectDone
    by (simp add: detectEmotions_resume_def try_catch_def console_error_def item_of_def)
next
  case (Some a)
  then have c: "ctx (s\<lparr>detect_pending := detect_pending s - 1\<rparr>) \<noteq> None" by simp
  have "item_of (fire (DetectDone (Inr (d # ds))) s) l
     = item_of (snd (update_emotions (fst (dominant (expressions d))) (expressions d)
      (s\<lparr>detect_pending := detect_pending s - 1,
         canvas := clearRect (canvas s),
         faceCount_text := ''Faces Detected: '' @ decimal (length (d # ds)),
         emotionName_text := toUpperCase (fst (dominant (expressions d))),
         emotionConfidence_text := toFixed1 (snd (dominant (expressions d)) * 100) @ ''%''\<rparr>))) l"
    unfolding fire_DetectDone using resume_face_list [OF c, of d ds]
    by (simp add: item_of_def)
  also have "\<dots> = item_of s l"
    unfolding update_emotions_absent [OF assms] by (simp add: item_of_def)
  finally show ?thesis .
qed

text \<open>
  C10. The entries of registered emotions that are missing from the mapping keep their
  state, but a label that is not registered is not always passed over: the ids
  \<^verbatim>\<open>emotion-name\<close> and \<^verbatim>\<open>emotion-confidence\<close> belong to other elements of the page, and
  on the labels \<^verbatim>\<open>name\<close> and \<^verbatim>\<open>confidence\<close> the loop throws. With \<^verbatim>\<open>name\<close> ahead of
  \<^verbatim>\<open>happy\<close> the entry of \<^verbatim>\<open>happy\<close> is never updated and nothing is drawn; without
  \<^verbatim>\<open>name\<close> the same tick sets the entry to 90.0% and highlights it.
\<close>

theorem C10_colliding_label_aborts_update:
  "fst (detectEmotions_body [face_with [(''name'', 1 / 10), (''happy'', 9 / 10)]]
          (detecting_page\<lparr>detect_pending := detect_pending detecting_page - 1\<rparr>)) = Throws TypeError
   \<and> item_of (fire (DetectDone (Inr [face_with [(''name'', 1 / 10), (''happy'', 9 / 10)]])) detecting_page)
         ''happy'' = item_of detecting_page ''happy''
   \<and> drawn (canvas (fire (DetectDone (Inr [face_with [(''name'', 1 / 10), (''happy'', 9 / 10)]]))
         detecting_page)) = []
   \<and> map_option value_text
         (item_of (fire (DetectDone (Inr [face_with [(''happy'', 9 / 10)]])) detecting_page) ''happy'')
       = Some ''90.0%''
   \<and> map_option value_text (item_of detecting_page ''happy'') = Some ''0%''
   \<and> is_active (fire (DetectDone (Inr [face_with [(''happy'', 9 / 10)]])) detecting_page) ''happy''"
  by code_simp

section \<open>Stopping the camera\<close>

lemma stopWebcam_with_ctx:
  "ctx s \<noteq> None \<Longrightarrow>
   stopWebcam s =
     (Normal, initEmotionsGrid
        ((clear_if_set ((stop_tracks s)\<lparr>isVideoRunning := False\<rparr>))
           \<lparr>canvas := clearRect (canvas s),
            emotionName_text := ''--'',
            emotionConfidence_text := ''0%'',
            faceCount_text := ''Faces Detected: 0''\<rparr>))"
  by (auto simp: stopWebcam_def Let_def clear_if_set_def clearInterval_def stop_tracks_def
      split: option.splits)

text \<open>
  C3 as stated fails in the state where the camera was never started: \<^verbatim>\<open>ctx\<close> is still
  null there and \<^verbatim>\<open>ctx.clearRect\<close> throws before the display is reset.
\<close>

theorem C3_never_started_counterexample:
  "run [PageLoad, ModelsLoaded] fresh_page = Some loaded_page
   \<and> fst (stopWebcam loaded_page) = Throws TypeError
   \<and> emotionName_text (snd (stopWebcam loaded_page)) = emotionName_text loaded_page
   \<and> emotionsList (snd (stopWebcam loaded_page)) = emotionsList loaded_page"
  by (simp add: page_defs)

text \<open>
  C3, amended. In every state whose drawing context is set (every state from which the
  handlers call it, and every state after a stop) \<^verbatim>\<open>stopWebcam\<close> does not throw, a
  second call changes nothing, and the state it leaves is the reset state: not running,
  the timer of the handle cancelled, the canvas cleared, \<^verbatim>\<open>--\<close>, \<^verbatim>\<open>0%\<close>, no faces, and
  every entry of the grid at zero.
\<close>

theorem C3_stop_idempotent:
  assumes "ctx s \<noteq> None"
  shows "fst (stopWebcam s) = Normal
    \<and> stopWebcam (snd (stopWebcam s)) = (Normal, snd (stopWebcam s))
    \<and> \<not> isVideoRunning (snd (stopWebcam s))
    \<and> (\<forall>i. detectingInterval s = Some i \<and> i \<noteq> 0 \<longrightarrow> i \<notin> set (timers (snd (stopWebcam s))))
    \<and> drawn (canvas (snd (stopWebcam s))) = []
    \<and> emotionName_text (snd (stopWebcam s)) = ''--''
    \<and> emotionConfidence_text (snd (stopWebcam s)) = ''0%''
    \<and> faceCount_text (snd (stopWebcam s)) = ''Faces Detected: 0''
    \<and> list_all (at_zero (snd (stopWebcam s))) emotion_labels"
proof -
  define s' where "s' = snd (stopWebcam s)"
  have s': "s' = initEmotionsGrid
        ((clear_if_set ((stop_tracks s)\<lparr>isVideoRunning := False\<rparr>))
           \<lparr>canvas := clearRect (canvas s),
            emotionName_text := ''--'',
            emotionConfidence_text := ''0%'',
            faceCount_text := ''Faces Detected: 0''\<rparr>)"
    unfolding s'_def stopWebcam_with_ctx [OF assms] by simp
  have 1: "fst (stopWebcam s) = Normal" unfolding stopWebcam_with_ctx [OF assms] by simp
  have c': "ctx s' \<noteq> None"
    using assms unfolding s'
    by (auto simp: initEmotionsGrid_def clear_if_set_def clearInterval_def stop_tracks_def
        split: option.splits)
  have 2: "stopWebcam s' = (Normal, s')"
    unfolding stopWebcam_with_ctx [OF c'] unfolding s'
    by (auto simp: initEmotionsGrid_def clear_if_set_def clearInterval_def stop_tracks_def
        clearRect_def split: option.splits)
  have 3: "\<not> isVideoRunning s'"
    unfolding s'
    by (auto simp: initEmotionsGrid_def clear_if_set_def clearInterval_def stop_tracks_def
        split: option.splits)
  have 4: "\<forall>i. detectingInterval s = Some i \<and> i \<noteq> 0 \<longrightarrow> i \<notin> set (timers s')"
    unfolding s'
    by (auto simp: initEmotionsGrid_def clear_if_set_def clearInterval_def stop_tracks_def
        split: option.splits)
  have 5: "drawn (canvas s') = []"
    unfolding s' by (simp add: initEmotionsGrid_def clearRect_def)
  have 6: "emotionName_text s' = ''--''" unfolding s' by (simp add: initEmotionsGrid_def)
  have 7: "emotionConfidence_text s' = ''0%''" unfolding s' by (simp add: initEmotionsGrid_def)
  have 8: "faceCount_text s' = ''Faces Detected: 0''" unfolding s' by (simp add: initEmotionsGrid_def)
  have 9: "list_all (at_zero s') emotion_labels" unfolding s' by (rule at_zero_init)
  from 1 2 3 4 5 6 7 8 9 show ?thesis unfolding s'_def by blast
qed

theorem C3_witness:
  "ctx camera_page \<noteq> None
   \<and> fst (stopWebcam camera_page) = Normal
   \<and> stopWebcam (snd (stopWebcam camera_page)) = (Normal, snd (stopWebcam camera_page))
   \<and> detectingInterval camera_page = Some 1
   \<and> 1 \<notin> set (timers (snd (stopWebcam camera_page)))
   \<and> emotionName_text (snd (stopWebcam camera_page)) = ''--''"
proof -
  have c: "ctx camera_page \<noteq> None" by (simp add: page_defs)
  have d: "detectingInterval camera_page = Some 1" by (simp add: page_defs)
  show ?thesis using c d C3_stop_idempotent [OF c] by simp
qed

section \<open>Timers, loading and starting\<close>

lemma initial_inv: "initial s \<Longrightarrow> session_inv s"
  by (simp add: initial_def session_inv_def)

lemma fire_DetectDone_fields:
  "timers (fire (DetectDone r) s) = timers s"
  "detectingInterval (fire (DetectDone r) s) = detectingInterval s"
  "next_timer (fire (DetectDone r) s) = next_timer s"
  "isVideoRunning (fire (DetectDone r) s) = isVideoRunning s"
  "ctx (fire (DetectDone r) s) = ctx s"
  "detect_pending (fire (DetectDone r) s) = detect_pending s - 1"
  using arg_cong [OF fire_DetectDone_frame [where r=r and s=s], of timers]
    arg_cong [OF fire_DetectDone_frame [where r=r and s=s], of detectingInterval]
    arg_cong [OF fire_DetectDone_frame [where r=r and s=s], of next_timer]
    arg_cong [OF fire_DetectDone_frame [where r=r and s=s], of isVideoRunning]
    arg_cong [OF fire_DetectDone_frame [where r=r and s=s], of ctx]
    arg_cong [OF fire_DetectDone_frame [where r=r and s=s], of detect_pending]
  by simp_all

lemmas handler_defs = load_start_def load_resume_def loadModels_start_def loadModels_resume_def
  initEmotionsGrid_def toggle_click_def startWebcam_request_def startWebcam_granted_def
  startWebcam_denied_def on_loadedmetadata_def startDetection_def setInterval_def
  clear_if_set_def clearInterval_def finish_def detectEmotions_start_def
  stopWebcam_def stop_tracks_def beforeunload_def

lemma fire_inv: "session_inv s \<Longrightarrow> session_inv (fire e s)"
proof (cases e)
  case (DetectDone r)
  assume "session_inv s"
  then show ?thesis unfolding DetectDone session_inv_def fire_DetectDone_fields by auto
next
  case Click
  assume "session_inv s"
  then show ?thesis unfolding Click
    by (auto simp: session_inv_def handler_defs Let_def split: option.splits sum.splits)
next
  case BeforeUnload
  assume "session_inv s"
  then show ?thesis unfolding BeforeUnload
    by (auto simp: session_inv_def handler_defs Let_def split: option.splits sum.splits)
next
  case (LoadedMetadata w h)
  assume "session_inv s"
  then show ?thesis unfolding LoadedMetadata
    by (auto simp: session_inv_def handler_defs Let_def split: option.splits sum.splits)
qed (auto simp: session_inv_def handler_defs Let_def split: option.splits sum.splits)

lemma reachable_inv: "reachable s \<Longrightarrow> session_inv s"
  by (induction rule: reachable.induct) (auto intro: initial_inv fire_inv)

lemma run_reachable: "reachable s \<Longrightarrow> run es s = Some s' \<Longrightarrow> reachable s'"
  by (induction es arbitrary: s) (auto split: if_splits intro: reachable.step)

lemma initial_fresh_page: "initial fresh_page"
  by (simp add: initial_def fresh_page_def)

lemma running_has_ctx: "reachable s \<Longrightarrow> isVideoRunning s \<Longrightarrow> ctx s \<noteq> None"
  using reachable_inv [of s] by (simp add: session_inv_def)

lemma in_flight_has_ctx: "reachable s \<Longrightarrow> enabled s (DetectDone r) \<Longrightarrow> ctx s \<noteq> None"
  using reachable_inv [of s] by (simp add: session_inv_def)


lemma stop_click:
  assumes "reachable s" and "isVideoRunning s"
  shows "timers (fire Click s) = []" and "\<not> isVideoRunning (fire Click s)"
proof -
  from reachable_inv [OF assms(1)] have inv: "session_inv s" .
  with assms(2) have c: "ctx s \<noteq> None" by (simp add: session_inv_def)
  from inv c assms(2) show "timers (fire Click s) = []"
    by (auto simp: session_inv_def handler_defs Let_def split: option.splits)
  from c assms(2) show "\<not> isVideoRunning (fire Click s)"
    by (auto simp: handler_defs Let_def split: option.splits)
qed

lemma no_timer_without_metadata:
  assumes "timers s = []" and "\<forall>w h. e \<noteq> LoadedMetadata w h"
  shows "timers (fire e s) = []"
proof (cases e)
  case (DetectDone r)
  then show ?thesis using assms(1) by (simp only: fire_DetectDone_fields)
next
  case (LoadedMetadata w h)
  with assms(2) show ?thesis by simp
qed (use assms(1) in \<open>auto simp: handler_defs Let_def split: option.splits\<close>)

text \<open>
  C8 as stated fails: a detection call that is in flight when the camera is stopped
  still completes, and its result is written to the display after the stop, although no
  timer is active any more.
\<close>

theorem C8_update_after_stop_counterexample:
  "run [PageLoad, ModelsLoaded, Click, MediaGranted, LoadedMetadata 640 480, TimerFires 1] fresh_page
     = Some detecting_page
   \<and> isVideoRunning detecting_page
   \<and> \<not> isVideoRunning (fire Click detecting_page)
   \<and> timers (fire Click detecting_page) = []
   \<and> emotionName_text (fire Click detecting_page) = ''--''
   \<and> enabled (fire Click detecting_page) (DetectDone (Inr [example_face]))
   \<and> emotionName_text (fire (DetectDone (Inr [example_face])) (fire Click detecting_page)) = ''HAPPY''
   \<and> drawn (canvas (fire (DetectDone (Inr [example_face])) (fire Click detecting_page))) \<noteq> []"
  by code_simp

text \<open>
  C8, amended. In every reachable state at most one detection timer is active. A click
  that stops the camera leaves no timer active and the camera not running; while no
  timer is active none appears unless the metadata event of a stream starts the
  detection again; and a timer that fires while the camera is not running requests no
  detection and changes nothing.
\<close>

theorem C8_at_most_one_timer:
  assumes "reachable s"
  shows "length (timers s) \<le> 1
    \<and> (isVideoRunning s \<longrightarrow> timers (fire Click s) = [] \<and> \<not> isVideoRunning (fire Click s))
    \<and> (timers s = [] \<longrightarrow> (\<forall>e. (\<forall>w h. e \<noteq> LoadedMetadata w h) \<longrightarrow> timers (fire e s) = []))
    \<and> (\<not> isVideoRunning s \<longrightarrow> fire (TimerFires i) s = s)"
proof -
  from reachable_inv [OF assms] have "session_inv s" .
  then have 1: "length (timers s) \<le> 1"
    by (auto simp: session_inv_def split: option.splits)
  have 2: "isVideoRunning s \<longrightarrow> timers (fire Click s) = [] \<and> \<not> isVideoRunning (fire Click s)"
    using stop_click [OF assms] by blast
  have 3: "timers s = [] \<longrightarrow> (\<forall>e. (\<forall>w h. e \<noteq> LoadedMetadata w h) \<longrightarrow> timers (fire e s) = [])"
    using no_timer_without_metadata [of s] by blast
  have 4: "\<not> isVideoRunning s \<longrightarrow> fire (TimerFires i) s = s"
    by (simp add: detectEmotions_start_def)
  from 1 2 3 4 show ?thesis by blast
qed

theorem C8_witness:
  "reachable camera_page
   \<and> timers camera_page = [1]
   \<and> isVideoRunning camera_page
   \<and> timers (fire Click camera_page) = []
   \<and> \<not> isVideoRunning (fire Click camera_page)"
proof -
  have r: "reachable camera_page"
    by (rule run_reachable [OF reachable.start [OF initial_fresh_page] camera_page_run])
  have t: "timers camera_page = [1]" by (simp add: page_defs)
  have v: "isVideoRunning camera_page" by (simp add: page_defs)
  show ?thesis using r t v C8_at_most_one_timer [OF r, of 1] by simp
qed

text \<open>
  C1. When the model load fails, \<^verbatim>\<open>loadModels\<close> shows the error text and leaves the
  button as it is, but the load handler then resumes as after a success: it sets the
  text \<^verbatim>\<open>Start Camera\<close> and enables the button, so a click is accepted.
\<close>

theorem C1_load_failure_enables_control:
  "toggle_disabled (loadModels_resume (Inl e) s) = toggle_disabled s
   \<and> loadingIndicator_text (fire (ModelsFailed e) s) = ''Error loading models''
   \<and> \<not> toggle_disabled (fire (ModelsFailed e) s)
   \<and> toggle_text (fire (ModelsFailed e) s) = ''Start Camera''
   \<and> enabled (fire (ModelsFailed e) s) Click
   \<and> toggle_disabled (fire PageLoad fresh_page)
   \<and> map_option toggle_disabled (run [PageLoad, ModelsFailed (Rejected ''Failed to fetch'')] fresh_page)
       = Some False"
  by (simp add: load_resume_def loadModels_resume_def load_start_def loadModels_start_def
      initEmotionsGrid_def fresh_page_def)

text \<open>
  C2. When the camera request is refused, the running flag is false, one alert is shown
  and no new request is made; but the click handler has already set the toggle to
  \<^verbatim>\<open>Stop Camera\<close> with the class \<^verbatim>\<open>active\<close>, and the refusal does not set it back.
\<close>

theorem C2_denied_camera_leaves_stop_label:
  "toggle_text (fire (MediaDenied e) s) = toggle_text s
   \<and> toggle_active (fire (MediaDenied e) s) = toggle_active s
   \<and> \<not> isVideoRunning (fire (MediaDenied e) s)
   \<and> run [PageLoad, ModelsLoaded, Click, MediaDenied (Rejected ''NotAllowedError'')] fresh_page
       = Some denied_page
   \<and> \<not> isVideoRunning denied_page
   \<and> toggle_text denied_page = ''Stop Camera''
   \<and> toggle_active denied_page
   \<and> alerts denied_page = [''Could not access webcam. Please check permissions.'']
   \<and> media_pending denied_page = 0"
  by (simp add: page_defs denied_page_def)

end
